theory Spec2Isabelle
  imports
    Complex_Main
    "HOL-Library.Char_ord"
    "HOL-Library.List_Lexorder"
    "HOL-Library.Product_Lexorder"
begin

section \<open>Python text primitives\<close>

text \<open>
  A Python \<open>str\<close> is modelled as a \<open>string\<close>, one \<open>char\<close> per character; a \<open>char\<close>
  has a code point below 256, which is the range of a header value (the server decodes
  headers as Latin-1), and on that range the model is that of CPython. Text with a
  character from U+0100 on, which a query parameter or a stored value may hold, is not
  a value of the model.
  \<open>str.strip()\<close> removes the characters for which \<open>str.isspace()\<close> holds: TAB to CR,
  FS to US, the space, NEL (U+0085) and the no-break space (U+00A0).
  \<open>str.lower()\<close> maps \<open>A\<close>..\<open>Z\<close> to \<open>a\<close>..\<open>z\<close> and the capital letters U+00C0..U+00DE,
  the multiplication sign U+00D7 apart, to U+00E0..U+00FE; every other character below
  256 is its own lower case. \<open>str.split(sep)\<close> always returns at least one piece.
\<close>

definition py_isspace :: "char \<Rightarrow> bool" where
  "py_isspace c =
     (let n = (of_char c :: nat) in
        (9 \<le> n \<and> n \<le> 13) \<or> (28 \<le> n \<and> n \<le> 32) \<or> n = 133 \<or> n = 160)"

definition strip :: "string \<Rightarrow> string" where
  "strip s = rev (dropWhile py_isspace (rev (dropWhile py_isspace s)))"

definition py_isupper :: "char \<Rightarrow> bool" where
  "py_isupper c =
     (let n = (of_char c :: nat) in
        (65 \<le> n \<and> n \<le> 90) \<or> (192 \<le> n \<and> n \<le> 214) \<or> (216 \<le> n \<and> n \<le> 222))"

definition lower_char :: "char \<Rightarrow> char" where
  "lower_char c = (if py_isupper c then char_of ((of_char c :: nat) + 32) else c)"

definition lower :: "string \<Rightarrow> string" where
  "lower s = map lower_char s"

fun split :: "char \<Rightarrow> string \<Rightarrow> string list" where
  "split sep [] = [[]]"
| "split sep (c # cs) =
     (if c = sep then [] # split sep cs
      else (case split sep cs of [] \<Rightarrow> [[c]] | w # ws \<Rightarrow> (c # w) # ws))"

section \<open>Cursor tokens\<close>

subsection \<open>\<open>str(int)\<close> and \<open>int(str)\<close>\<close>

definition digit_char :: "nat \<Rightarrow> char" where
  "digit_char d = char_of (48 + d)"

definition is_digit :: "char \<Rightarrow> bool" where
  "is_digit c = (let n = (of_char c :: nat) in 48 \<le> n \<and> n \<le> 57)"

definition digit_val :: "char \<Rightarrow> nat" where
  "digit_val c = of_char c - 48"

fun digits10 :: "nat \<Rightarrow> string" where
  "digits10 n = (if n < 10 then [digit_char n] else digits10 (n div 10) @ [digit_char (n mod 10)])"

declare digits10.simps [simp del]

text \<open>\<open>str(offset)\<close>: the decimal numeral, with a minus sign for a negative integer.\<close>

definition py_str :: "int \<Rightarrow> string" where
  "py_str i = (if i < 0 then CHR ''-'' # digits10 (nat (- i)) else digits10 (nat i))"

text \<open>
  \<open>int(s)\<close> on an ASCII string, base 10 (CPython's \<open>PyLong_FromString\<close>): leading white
  space (TAB to CR and the space), an optional sign, decimal digits in which single
  underscores may separate digits, trailing white space, and nothing else. \<open>None\<close> is
  \<open>ValueError\<close>. The interpreter's configurable limit on the length of decimal
  conversions is a runtime setting and is not part of this model.
\<close>

definition c_isspace :: "char \<Rightarrow> bool" where
  "c_isspace c = (let n = (of_char c :: nat) in (9 \<le> n \<and> n \<le> 13) \<or> n = 32)"

fun scan_digits :: "bool \<Rightarrow> nat \<Rightarrow> string \<Rightarrow> (nat \<times> string) option" where
  "scan_digits prev_us acc [] = (if prev_us then None else Some (acc, []))"
| "scan_digits prev_us acc (c # cs) =
     (if is_digit c then scan_digits False (10 * acc + digit_val c) cs
      else if c = CHR ''_'' then (if prev_us then None else scan_digits True acc cs)
      else if prev_us then None
      else Some (acc, c # cs))"

definition py_int_ascii :: "string \<Rightarrow> int option" where
  "py_int_ascii s =
     (let s1 = dropWhile c_isspace s;
          neg = (s1 \<noteq> [] \<and> hd s1 = CHR ''-'');
          s2 = (if s1 \<noteq> [] \<and> (hd s1 = CHR ''-'' \<or> hd s1 = CHR ''+'') then tl s1 else s1)
      in if s2 = [] \<or> \<not> is_digit (hd s2) then None
         else (case scan_digits False 0 s2 of
                 None \<Rightarrow> None
               | Some (v, rest) \<Rightarrow>
                   if dropWhile c_isspace rest = [] then Some (if neg then - int v else int v)
                   else None))"

subsection \<open>Base64, URL-safe alphabet\<close>

text \<open>
  \<open>base64.urlsafe_b64encode\<close> is the standard encoding with \<open>+\<close> and \<open>/\<close> replaced by
  \<open>-\<close> and \<open>_\<close>. Bytes are \<open>char\<close>s; \<open>b64_char\<close> reads the table \<open>table_b2a_base64\<close>.
\<close>

definition b64_alphabet :: string where
  "b64_alphabet = ''ABCDEFGHIJKLMNOPQRSTUVWXYZabcdefghijklmnopqrstuvwxyz0123456789+/''"

definition b64_char :: "nat \<Rightarrow> char" where
  "b64_char i = b64_alphabet ! i"

fun b2a_base64 :: "string \<Rightarrow> string" where
  "b2a_base64 [] = []"
| "b2a_base64 [a] =
     (let x = (of_char a :: nat) in
      [b64_char (x div 4), b64_char ((x mod 4) * 16), CHR ''='', CHR ''=''])"
| "b2a_base64 [a, b] =
     (let x = (of_char a :: nat); y = (of_char b :: nat) in
      [b64_char (x div 4), b64_char ((x mod 4) * 16 + y div 16),
       b64_char ((y mod 16) * 4), CHR ''=''])"
| "b2a_base64 (a # b # c # rest) =
     (let x = (of_char a :: nat); y = (of_char b :: nat); z = (of_char c :: nat) in
      [b64_char (x div 4), b64_char ((x mod 4) * 16 + y div 16),
       b64_char ((y mod 16) * 4 + z div 64), b64_char (z mod 64)] @ b2a_base64 rest)"

definition urlsafe_encode_translation :: "char \<Rightarrow> char" where
  "urlsafe_encode_translation c =
     (if c = CHR ''+'' then CHR ''-'' else if c = CHR ''/'' then CHR ''_'' else c)"

definition urlsafe_b64encode :: "string \<Rightarrow> string" where
  "urlsafe_b64encode s = map urlsafe_encode_translation (b2a_base64 s)"

text \<open>
  \<open>base64.urlsafe_b64decode\<close> first maps \<open>-\<close> and \<open>_\<close> back to \<open>+\<close> and \<open>/\<close>, then runs
  \<open>binascii.a2b_base64\<close> in its lenient mode (CPython 3.11): a character outside the
  alphabet is skipped; a \<open>=\<close> ends the input once the current quad holds at least two
  characters and the pads complete it; input that ends inside a quad is an error
  (\<open>None\<close>). The state is the position in the quad, the bits left over from the last
  character, and the pads counted since the last data character.
\<close>

definition b64_index :: "char \<Rightarrow> nat option" where
  "b64_index c =
     (let n = (of_char c :: nat) in
      if 65 \<le> n \<and> n \<le> 90 then Some (n - 65)
      else if 97 \<le> n \<and> n \<le> 122 then Some (n - 71)
      else if 48 \<le> n \<and> n \<le> 57 then Some (n + 4)
      else if c = CHR ''+'' then Some 62
      else if c = CHR ''/'' then Some 63
      else None)"

fun a2b_base64 :: "nat \<Rightarrow> nat \<Rightarrow> nat \<Rightarrow> string \<Rightarrow> string option" where
  "a2b_base64 quad_pos leftchar pads [] = (if quad_pos \<noteq> 0 then None else Some [])"
| "a2b_base64 quad_pos leftchar pads (c # cs) =
     (if c = CHR ''='' then
        (if quad_pos \<ge> 2 \<and> quad_pos + (pads + 1) \<ge> 4 then Some []
         else a2b_base64 quad_pos leftchar (if quad_pos \<ge> 2 then pads + 1 else pads) cs)
      else (case b64_index c of
              None \<Rightarrow> a2b_base64 quad_pos leftchar pads cs
            | Some v \<Rightarrow>
                if quad_pos = 0 then a2b_base64 1 v 0 cs
                else if quad_pos = 1 then
                  map_option ((#) (char_of (leftchar * 4 + v div 16)))
                    (a2b_base64 2 (v mod 16) 0 cs)
                else if quad_pos = 2 then
                  map_option ((#) (char_of (leftchar * 16 + v div 4)))
                    (a2b_base64 3 (v mod 4) 0 cs)
                else
                  map_option ((#) (char_of (leftchar * 64 + v)))
                    (a2b_base64 0 0 0 cs)))"

definition urlsafe_decode_translation :: "char \<Rightarrow> char" where
  "urlsafe_decode_translation c =
     (if c = CHR ''-'' then CHR ''+'' else if c = CHR ''_'' then CHR ''/'' else c)"

definition urlsafe_b64decode :: "string \<Rightarrow> string option" where
  "urlsafe_b64decode s = a2b_base64 0 0 0 (map urlsafe_decode_translation s)"

subsection \<open>\<open>encode_cursor\<close> and \<open>decode_cursor\<close>\<close>

datatype error =
    BadRequest      \<comment> \<open>HTTP 400, "Invalid cursor"\<close>
  | NotFound        \<comment> \<open>HTTP 404\<close>
  | Conflict        \<comment> \<open>HTTP 409\<close>
  | PreconditionFailed  \<comment> \<open>HTTP 412\<close>
  | ServerError     \<comment> \<open>an exception no handler catches: HTTP 500\<close>

definition encode_cursor :: "int \<Rightarrow> string" where
  "encode_cursor offset = urlsafe_b64encode (py_str offset)"

text \<open>
  \<open>bytes.decode()\<close> followed by \<open>int()\<close>: on ASCII bytes this is \<open>py_int_ascii\<close>. What
  the interpreter does with a payload that holds a byte above 127 (an invalid UTF-8
  sequence raises; a Unicode digit parses) is given by the argument \<open>non_ascii\<close>.
\<close>

definition decode_int :: "(string \<Rightarrow> int option) \<Rightarrow> string \<Rightarrow> int option" where
  "decode_int non_ascii bs =
     (if list_all (\<lambda>c. (of_char c :: nat) < 128) bs then py_int_ascii bs
      else non_ascii bs)"

definition decode_cursor :: "(string \<Rightarrow> int option) \<Rightarrow> string option \<Rightarrow> error + int" where
  "decode_cursor non_ascii cursor =
     (case cursor of
        None \<Rightarrow> Inr 0
      | Some c \<Rightarrow>
          if c = [] then Inr 0
          else (case urlsafe_b64decode c of
                  None \<Rightarrow> Inl BadRequest
                | Some bs \<Rightarrow>
                    (case decode_int non_ascii bs of
                       None \<Rightarrow> Inl BadRequest
                     | Some n \<Rightarrow> Inr n)))"

text \<open>Auxiliary notions for the proofs about the codec.\<close>

definition url_round :: "char \<Rightarrow> char" where
  "url_round c = urlsafe_decode_translation (urlsafe_encode_translation c)"

definition digits_value :: "nat \<Rightarrow> string \<Rightarrow> nat" where
  "digits_value acc ds = foldl (\<lambda>a c. 10 * a + digit_val c) acc ds"

section \<open>Timestamps, rows and fingerprints\<close>

text \<open>
  A \<open>datetime\<close> (column type \<open>DATETIME(6)\<close>) is its seven calendar fields; two values
  compare as their field tuples do, lexicographically. \<open>isoformat\<close> is
  \<open>datetime.isoformat(timespec="microseconds")\<close> of a naive value:
  \<open>YYYY-MM-DDTHH:MM:SS.ffffff\<close>, every field zero-padded to its width.
\<close>

record datetime =
  year :: nat
  month :: nat
  day :: nat
  hour :: nat
  minute :: nat
  second :: nat
  microsecond :: nat

definition dt_key :: "datetime \<Rightarrow> nat \<times> nat \<times> nat \<times> nat \<times> nat \<times> nat \<times> nat" where
  "dt_key d = (year d, month d, day d, hour d, minute d, second d, microsecond d)"


definition zero_pad :: "nat \<Rightarrow> nat \<Rightarrow> string" where
  "zero_pad w n = replicate (w - length (digits10 n)) CHR ''0'' @ digits10 n"

definition isoformat :: "datetime \<Rightarrow> string" where
  "isoformat d =
     zero_pad 4 (year d) @ ''-'' @ zero_pad 2 (month d) @ ''-'' @ zero_pad 2 (day d) @ ''T''
     @ zero_pad 2 (hour d) @ '':'' @ zero_pad 2 (minute d) @ '':'' @ zero_pad 2 (second d)
     @ ''.'' @ zero_pad 6 (microsecond d)"

text \<open>
  The columns the two tables share, and each table's own. \<open>row_id\<close> is the column \<open>id\<close>
  (a UUID in its canonical text form). A \<open>tags\<close> column holds SQL \<open>NULL\<close> or a JSON
  array of strings: the service writes \<open>json.dumps\<close> of a validated list and nothing
  else. Nullable columns are options.
\<close>

record feedback_row =
  row_id :: string
  created_at :: datetime
  updated_at :: datetime
  headline :: "string option"
  comment :: "string option"
  tags :: "string list option"

record profile_row = feedback_row +
  reviewer_profile_id :: string
  reviewee_profile_id :: string
  match_id :: "string option"
  overall_experience :: int
  would_meet_again :: "int option"
  safety_feeling :: "int option"
  respectfulness :: "int option"

record app_row = feedback_row +
  author_profile_id :: "string option"
  overall :: int
  usability :: "int option"
  reliability :: "int option"
  performance :: "int option"
  support_experience :: "int option"

definition dquote :: char where
  "dquote = CHR 0x22"

definition squote :: char where
  "squote = CHR 0x27"

definition backslash :: char where
  "backslash = CHR 0x5C"

text \<open>
  \<open>make_etag\<close>: the quoted SHA-1 hex digest of \<open>id|updated_at\<close>. The digest function
  \<open>hashlib.sha1(...).hexdigest()\<close> is the argument \<open>sha1_hex\<close>. \<open>updated_at\<close> is a
  \<open>NOT NULL DATETIME(6)\<close> column, which the driver returns as a \<open>datetime\<close>, so the
  branch \<open>str(updated)\<close> is not taken.
\<close>

definition etag_payload :: "'a feedback_row_scheme \<Rightarrow> string" where
  "etag_payload row = row_id row @ ''|'' @ isoformat (updated_at row)"

definition make_etag :: "(string \<Rightarrow> string) \<Rightarrow> 'a feedback_row_scheme \<Rightarrow> string" where
  "make_etag sha1_hex row = [dquote] @ sha1_hex (etag_payload row) @ [dquote]"

definition parse_etag_header :: "string option \<Rightarrow> string list" where
  "parse_etag_header header_value =
     (case header_value of
        None \<Rightarrow> []
      | Some h \<Rightarrow> if h = [] then [] else map strip (filter (\<lambda>part. strip part \<noteq> []) (split CHR '','' h)))"

section \<open>The storage engine's predicates\<close>

text \<open>
  \<open>like_match pattern s\<close> is the value of \<open>s LIKE pattern\<close>: \<open>%\<close> matches any run of
  characters, \<open>_\<close> any one character, and the escape character \<open>\\<close> makes the
  character after it literal (a pattern's last \<open>\\<close> stands for itself).
\<close>

fun like_match :: "string \<Rightarrow> string \<Rightarrow> bool" where
  "like_match [] s = (s = [])"
| "like_match (p # ps) [] = (if p = CHR ''%'' then like_match ps [] else False)"
| "like_match (p # ps) (c # cs) =
     (if p = CHR ''%'' then like_match ps (c # cs) \<or> like_match (p # ps) cs
      else if p = CHR ''_'' then like_match ps cs
      else if p = backslash then
        (case ps of [] \<Rightarrow> c = backslash \<and> like_match [] cs | e # r \<Rightarrow> c = e \<and> like_match r cs)
      else c = p \<and> like_match ps cs)"

text \<open>
  \<open>JSON_SEARCH(tags, 'one', t) IS NOT NULL\<close>: the search string is a \<open>LIKE\<close> pattern,
  matched against the strings of the document; \<open>NULL\<close> for a \<open>NULL\<close> document.
\<close>

definition json_search_not_null :: "string list option \<Rightarrow> string \<Rightarrow> bool" where
  "json_search_not_null doc t =
     (case doc of None \<Rightarrow> False | Some xs \<Rightarrow> list_ex (like_match t) xs)"

text \<open>
  \<open>JSON_OVERLAPS(tags, ys)\<close> for two arrays of strings: true when they share an element;
  \<open>NULL\<close>, which a \<open>WHERE\<close> clause reads as false, for a \<open>NULL\<close> document.
\<close>

definition json_overlaps :: "string list option \<Rightarrow> string list \<Rightarrow> bool" where
  "json_overlaps doc ys =
     (case doc of None \<Rightarrow> False | Some xs \<Rightarrow> list_ex (\<lambda>x. x \<in> set ys) xs)"

subsection \<open>The text handed to \<open>CAST(%s AS JSON)\<close>\<close>

text \<open>
  \<open>str(tag_list).replace("'", '"')\<close>. \<open>repr\<close> of a string quotes it with \<open>'\<close>, or with
  \<open>"\<close> when it holds a \<open>'\<close> and no \<open>"\<close>; it escapes the backslash and the quote in use,
  writes TAB, LF and CR as \<open>\t\<close>, \<open>\n\<close>, \<open>\r\<close>, and every other non-printable character
  as \<open>\xNN\<close>.
\<close>

definition hex_digit :: "nat \<Rightarrow> char" where
  "hex_digit d = ''0123456789abcdef'' ! d"

definition repr_char :: "char \<Rightarrow> char \<Rightarrow> string" where
  "repr_char q c =
     (let n = (of_char c :: nat) in
      if c = q \<or> c = backslash then [backslash, c]
      else if n = 9 then [backslash, CHR ''t'']
      else if n = 10 then [backslash, CHR ''n'']
      else if n = 13 then [backslash, CHR ''r'']
      else if n < 32 \<or> (127 \<le> n \<and> n \<le> 160) \<or> n = 173 then
        [backslash, CHR ''x'', hex_digit (n div 16), hex_digit (n mod 16)]
      else [c])"

definition py_repr_str :: "string \<Rightarrow> string" where
  "py_repr_str s =
     (let q = (if squote \<in> set s \<and> dquote \<notin> set s then dquote else squote)
      in [q] @ concat (map (repr_char q) s) @ [q])"

fun join :: "string \<Rightarrow> string list \<Rightarrow> string" where
  "join sep [] = []"
| "join sep [x] = x"
| "join sep (x # y # ys) = x @ sep @ join sep (y # ys)"

definition py_str_list :: "string list \<Rightarrow> string" where
  "py_str_list xs = ''['' @ join '', '' (map py_repr_str xs) @ '']''"

definition replace_squote :: "string \<Rightarrow> string" where
  "replace_squote s = map (\<lambda>c. if c = squote then dquote else c) s"

definition json_param :: "string list \<Rightarrow> string" where
  "json_param tag_list = replace_squote (py_str_list tag_list)"

text \<open>
  The engine's JSON parser on the texts that are arrays of strings written without
  \<open>\u\<close> escapes: \<open>Some xs\<close> is the array read. On any other text (\<open>None\<close>) the engine
  either rejects the statement or reads another document; what it does there is given to
  the queries below by their argument \<open>cast_other\<close>.
\<close>

datatype jstate =
    Start | Open | InString | InEscape | AfterString | AfterComma | Closed

definition json_ws :: "char \<Rightarrow> bool" where
  "json_ws c = (let n = (of_char c :: nat) in n = 32 \<or> n = 9 \<or> n = 10 \<or> n = 13)"

definition json_escape :: "char \<Rightarrow> char option" where
  "json_escape e =
     (if e = dquote \<or> e = backslash \<or> e = CHR ''/'' then Some e
      else if e = CHR ''b'' then Some (char_of (8::nat))
      else if e = CHR ''f'' then Some (char_of (12::nat))
      else if e = CHR ''n'' then Some (char_of (10::nat))
      else if e = CHR ''r'' then Some (char_of (13::nat))
      else if e = CHR ''t'' then Some (char_of (9::nat))
      else None)"

fun json_run :: "jstate \<Rightarrow> string \<Rightarrow> string list \<Rightarrow> string \<Rightarrow> string list option" where
  "json_run st cur done [] = (if st = Closed then Some done else None)"
| "json_run st cur done (c # cs) =
     (case st of
        Start \<Rightarrow> if json_ws c then json_run Start cur done cs
                 else if c = CHR ''['' then json_run Open cur done cs else None
      | Open \<Rightarrow> if json_ws c then json_run Open cur done cs
                else if c = CHR '']'' then json_run Closed cur done cs
                else if c = dquote then json_run InString [] done cs else None
      | AfterComma \<Rightarrow> if json_ws c then json_run AfterComma cur done cs
                      else if c = dquote then json_run InString [] done cs else None
      | InString \<Rightarrow> if c = dquote then json_run AfterString [] (done @ [cur]) cs
                    else if c = backslash then json_run InEscape cur done cs
                    else if (of_char c :: nat) < 32 then None
                    else json_run InString (cur @ [c]) done cs
      | InEscape \<Rightarrow> (case json_escape c of
                       None \<Rightarrow> None
                     | Some d \<Rightarrow> json_run InString (cur @ [d]) done cs)
      | AfterString \<Rightarrow> if json_ws c then json_run AfterString cur done cs
                       else if c = CHR '','' then json_run AfterComma cur done cs
                       else if c = CHR '']'' then json_run Closed cur done cs else None
      | Closed \<Rightarrow> if json_ws c then json_run Closed cur done cs else None)"

definition cast_string_array :: "string \<Rightarrow> string list option" where
  "cast_string_array s = json_run Start [] [] s"

text \<open>
  \<open>JSON_OVERLAPS(tags, CAST(%s AS JSON))\<close> as a predicate on the \<open>tags\<close> column:
  \<open>None\<close> when the engine rejects the statement.
\<close>

definition json_overlaps_cast ::
  "(string \<Rightarrow> (string list option \<Rightarrow> bool) option) \<Rightarrow> string \<Rightarrow> (string list option \<Rightarrow> bool) option"
where
  "json_overlaps_cast cast_other s =
     (case cast_string_array s of
        Some ys \<Rightarrow> Some (\<lambda>doc. json_overlaps doc ys)
      | None \<Rightarrow> cast_other s)"

section \<open>Filters\<close>

text \<open>
  \<open>[t.strip().lower() for t in tags.split(",") if t.strip()]\<close>, as every endpoint that
  takes a \<open>tags\<close> parameter computes it.
\<close>

definition tag_list :: "string \<Rightarrow> string list" where
  "tag_list tags_param =
     map (\<lambda>t. lower (strip t)) (filter (\<lambda>t. strip t \<noteq> []) (split CHR '','' tags_param))"

text \<open>
  The conditions a request appends to \<open>where\<close>, each as a predicate on a row. A
  parameter that is absent, or falsy in Python (the empty string), appends nothing.
  A comparison with a \<open>NULL\<close> column is not true.
\<close>

definition since_cond :: "datetime option \<Rightarrow> 'a feedback_row_scheme \<Rightarrow> bool" where
  "since_cond since r =
     (case since of None \<Rightarrow> True | Some t \<Rightarrow> dt_key t \<le> dt_key (created_at r))"

definition min_cond :: "int option \<Rightarrow> int \<Rightarrow> bool" where
  "min_cond min_overall v = (case min_overall of None \<Rightarrow> True | Some m \<Rightarrow> m \<le> v)"

definition max_cond :: "int option \<Rightarrow> int \<Rightarrow> bool" where
  "max_cond max_overall v = (case max_overall of None \<Rightarrow> True | Some m \<Rightarrow> v \<le> m)"

definition eq_cond :: "string option \<Rightarrow> string option \<Rightarrow> bool" where
  "eq_cond param col = (case param of None \<Rightarrow> True | Some x \<Rightarrow> col = Some x)"

definition coalesce :: "string option \<Rightarrow> string" where
  "coalesce col = (case col of None \<Rightarrow> [] | Some s \<Rightarrow> s)"

text \<open>
  \<open>(LOWER(COALESCE(headline, '')) LIKE %s OR LOWER(COALESCE(comment, '')) LIKE %s)\<close> with
  the pattern \<open>f"%{search.lower()}%"\<close>. Characters are compared for equality; a
  collation of the column that equates a letter with its accented forms is not modelled.
\<close>

definition search_pattern :: "string \<Rightarrow> string" where
  "search_pattern search = ''%'' @ lower search @ ''%''"

definition search_cond :: "string option \<Rightarrow> 'a feedback_row_scheme \<Rightarrow> bool" where
  "search_cond search r =
     (case search of
        None \<Rightarrow> True
      | Some s \<Rightarrow>
          if s = [] then True
          else like_match (search_pattern s) (lower (coalesce (headline r)))
             \<or> like_match (search_pattern s) (lower (coalesce (comment r))))"

text \<open>
  The tag condition of \<open>list_profile_feedback\<close>: one
  \<open>JSON_SEARCH(tags, 'one', %s) IS NOT NULL\<close> per token, joined by \<open>OR\<close>.
\<close>

definition tags_search_cond :: "string option \<Rightarrow> 'a feedback_row_scheme \<Rightarrow> bool" where
  "tags_search_cond tags_param r =
     (case tags_param of
        None \<Rightarrow> True
      | Some t \<Rightarrow>
          if t = [] then True
          else if tag_list t = [] then True
          else list_ex (json_search_not_null (tags r)) (tag_list t))"

text \<open>
  The tag condition of \<open>profile_feedback_stats\<close>, \<open>list_app_feedback\<close> and
  \<open>app_feedback_stats\<close>: \<open>JSON_OVERLAPS(tags, CAST(%s AS JSON))\<close> with the parameter
  \<open>str(tag_list).replace("'", '"')\<close>. \<open>None\<close>: the engine rejects the statement.
\<close>

definition tags_overlaps_cond ::
  "(string \<Rightarrow> (string list option \<Rightarrow> bool) option) \<Rightarrow> string option
   \<Rightarrow> (string list option \<Rightarrow> bool) option"
where
  "tags_overlaps_cond cast_other tags_param =
     (case tags_param of
        None \<Rightarrow> Some (\<lambda>doc. True)
      | Some t \<Rightarrow>
          if t = [] then Some (\<lambda>doc. True)
          else if tag_list t = [] then Some (\<lambda>doc. True)
          else json_overlaps_cast cast_other (json_param (tag_list t)))"

section \<open>Listing\<close>

record list_query =
  q_tags :: "string option"
  q_min_overall :: "int option"
  q_max_overall :: "int option"
  q_since :: "datetime option"
  q_search :: "string option"
  q_sort :: string
  q_order :: string
  q_limit :: int
  q_cursor :: "string option"

record profile_list_query = list_query +
  q_reviewee_profile_id :: "string option"
  q_reviewer_profile_id :: "string option"
  q_match_id :: "string option"

record app_list_query = list_query +
  q_author_profile_id :: "string option"
  q_offset :: int

definition profile_list_where :: "profile_list_query \<Rightarrow> profile_row \<Rightarrow> bool" where
  "profile_list_where q r =
     (eq_cond (q_reviewee_profile_id q) (Some (reviewee_profile_id r))
      \<and> eq_cond (q_reviewer_profile_id q) (Some (reviewer_profile_id r))
      \<and> eq_cond (q_match_id q) (match_id r)
      \<and> since_cond (q_since q) r
      \<and> min_cond (q_min_overall q) (overall_experience r)
      \<and> max_cond (q_max_overall q) (overall_experience r)
      \<and> tags_search_cond (q_tags q) r
      \<and> search_cond (q_search q) r)"

definition app_list_where ::
  "(string \<Rightarrow> (string list option \<Rightarrow> bool) option) \<Rightarrow> app_list_query \<Rightarrow> (app_row \<Rightarrow> bool) option"
where
  "app_list_where cast_other q =
     (case tags_overlaps_cond cast_other (q_tags q) of
        None \<Rightarrow> None
      | Some tag_cond \<Rightarrow>
          Some (\<lambda>r. eq_cond (q_author_profile_id q) (author_profile_id r)
                  \<and> since_cond (q_since q) r
                  \<and> min_cond (q_min_overall q) (overall r)
                  \<and> max_cond (q_max_overall q) (overall r)
                  \<and> tag_cond (tags r)
                  \<and> search_cond (q_search q) r))"

text \<open>
  \<open>ORDER BY col dir, id dir LIMIT %s OFFSET %s\<close> over the rows a \<open>WHERE\<close> clause keeps.
  The primary key makes the sort key unique, so the descending order is the reverse of
  the ascending one. The engine accepts only unsigned 64-bit literals after \<open>LIMIT\<close> and
  \<open>OFFSET\<close>; any other value fails the statement (\<open>None\<close>).
\<close>

definition ordered :: "('r \<Rightarrow> 'k::linorder) \<Rightarrow> string \<Rightarrow> 'r list \<Rightarrow> 'r list" where
  "ordered sort_column order_param rows =
     (if order_param = ''asc'' then sort_key sort_column rows else rev (sort_key sort_column rows))"

definition limit_offset :: "int \<Rightarrow> int \<Rightarrow> 'r list \<Rightarrow> 'r list option" where
  "limit_offset row_limit row_offset rows =
     (if row_limit < 0 \<or> row_offset < 0 \<or> 2 ^ 64 \<le> row_limit \<or> 2 ^ 64 \<le> row_offset
      then None
      else Some (take (nat row_limit) (drop (nat row_offset) rows)))"

definition select_profile_page ::
  "profile_list_query \<Rightarrow> int \<Rightarrow> profile_row list \<Rightarrow> profile_row list option"
where
  "select_profile_page q off table =
     limit_offset (q_limit q) off
       (if q_sort q = ''created_at''
        then ordered (\<lambda>r. (dt_key (created_at r), row_id r)) (q_order q)
               (filter (profile_list_where q) table)
        else ordered (\<lambda>r. (overall_experience r, row_id r)) (q_order q)
               (filter (profile_list_where q) table))"

definition select_app_page ::
  "app_list_query \<Rightarrow> (app_row \<Rightarrow> bool) \<Rightarrow> int \<Rightarrow> app_row list \<Rightarrow> app_row list option"
where
  "select_app_page q cond off table =
     limit_offset (q_limit q) off
       (if q_sort q = ''created_at''
        then ordered (\<lambda>r. (dt_key (created_at r), row_id r)) (q_order q) (filter cond table)
        else ordered (\<lambda>r. (overall r, row_id r)) (q_order q) (filter cond table))"

text \<open>
  A page as the list endpoints return it. \<open>items\<close> are the rows mapped through the
  response model (\<open>row_to_profile_out\<close>, \<open>row_to_app_out\<close>), an argument of the
  endpoints: building a response model validates it and can raise (\<open>None\<close>, answered
  with HTTP 500). The four \<open>links_\<close>
  fields are the values handed to \<open>build_collection_links\<close>; the URLs it formats from
  them are not modelled.
\<close>

record 'o page =
  items :: "'o list"
  next_cursor :: "string option"
  count :: int
  links_next_cursor :: "string option"
  links_prev_cursor :: "string option"
  links_next_offset :: "int option"
  links_prev_offset :: "int option"

record pagination =
  pagination_limit :: int
  pagination_offset :: int
  pagination_count :: int
  total :: int
  has_next :: bool
  has_previous :: bool
  next_offset :: "int option"
  previous_offset :: "int option"
  pagination_next_cursor :: "string option"

record 'o app_page = "'o page" +
  pagination :: pagination

fun render_all :: "('r \<Rightarrow> 'o option) \<Rightarrow> 'r list \<Rightarrow> 'o list option" where
  "render_all row_to_out [] = Some []"
| "render_all row_to_out (r # rs) =
     (case row_to_out r of
        None \<Rightarrow> None
      | Some out \<Rightarrow>
          (case render_all row_to_out rs of None \<Rightarrow> None | Some outs \<Rightarrow> Some (out # outs)))"

definition list_profile_feedback ::
  "(string \<Rightarrow> int option) \<Rightarrow> (profile_row \<Rightarrow> 'o option) \<Rightarrow> profile_row list
   \<Rightarrow> profile_list_query \<Rightarrow> error + 'o page"
where
  "list_profile_feedback non_ascii row_to_profile_out table q =
     (case decode_cursor non_ascii (q_cursor q) of
        Inl e \<Rightarrow> Inl e
      | Inr off \<Rightarrow>
          (case select_profile_page q off table of
             None \<Rightarrow> Inl ServerError
           | Some rows \<Rightarrow>
               let nxt = (if int (length rows) = q_limit q
                          then Some (encode_cursor (off + int (length rows))) else None)
               in (case render_all row_to_profile_out rows of
                     None \<Rightarrow> Inl ServerError
                   | Some outs \<Rightarrow>
                       let prev = (if off > 0 then Some (encode_cursor (max (off - q_limit q) 0))
                                   else None)
                       in Inr \<lparr>items = outs, next_cursor = nxt, count = int (length outs),
                               links_next_cursor = nxt, links_prev_cursor = prev,
                               links_next_offset = None, links_prev_offset = None\<rparr>)))"

text \<open>\<open>decode_cursor(cursor) if cursor else offset\<close>\<close>

definition app_effective_offset :: "(string \<Rightarrow> int option) \<Rightarrow> app_list_query \<Rightarrow> error + int" where
  "app_effective_offset non_ascii q =
     (if q_cursor q \<noteq> None \<and> q_cursor q \<noteq> Some [] then decode_cursor non_ascii (q_cursor q)
      else Inr (q_offset q))"

definition list_app_feedback ::
  "(string \<Rightarrow> int option) \<Rightarrow> (string \<Rightarrow> (string list option \<Rightarrow> bool) option)
   \<Rightarrow> (app_row \<Rightarrow> 'o option) \<Rightarrow> app_row list \<Rightarrow> app_list_query \<Rightarrow> error + 'o app_page"
where
  "list_app_feedback non_ascii cast_other row_to_app_out table q =
     (case app_effective_offset non_ascii q of
        Inl e \<Rightarrow> Inl e
      | Inr effective_offset \<Rightarrow>
          (case app_list_where cast_other q of
             None \<Rightarrow> Inl ServerError
           | Some cond \<Rightarrow>
               (case select_app_page q cond effective_offset table of
                  None \<Rightarrow> Inl ServerError
                | Some rows \<Rightarrow>
                    let tot = int (length (filter cond table));
                        nxt = (if int (length rows) = q_limit q
                               then Some (encode_cursor (effective_offset + int (length rows)))
                               else None)
                    in (case render_all row_to_app_out rows of
                          None \<Rightarrow> Inl ServerError
                        | Some outs \<Rightarrow>
                            let hn = (effective_offset + int (length rows) < tot);
                                prev_off = (if effective_offset > 0
                                            then Some (max (effective_offset - q_limit q) 0)
                                            else None);
                                next_off = (if hn then Some (effective_offset + q_limit q)
                                            else None);
                                use_cursor = (q_cursor q \<noteq> None);
                                prev = (if use_cursor \<and> effective_offset > 0
                                        then Some (encode_cursor
                                               (max (effective_offset - q_limit q) 0))
                                        else None)
                            in Inr \<lparr>items = outs, next_cursor = nxt, count = int (length outs),
                                    links_next_cursor = (if use_cursor then nxt else None),
                                    links_prev_cursor = prev,
                                    links_next_offset = (if use_cursor then None else next_off),
                                    links_prev_offset = (if use_cursor then None else prev_off),
                                    pagination =
                                      \<lparr>pagination_limit = q_limit q,
                                       pagination_offset = effective_offset,
                                       pagination_count = int (length outs),
                                       total = tot,
                                       has_next = hn,
                                       has_previous = (effective_offset > 0),
                                       next_offset = next_off,
                                       previous_offset = prev_off,
                                       pagination_next_cursor = nxt\<rparr>\<rparr>))))"

section \<open>Statistics\<close>

text \<open>
  The statements an endpoint runs, in order; the stats and update endpoints return this
  trace with their result.
\<close>

datatype statement = AggregateQuery | TagRankingQuery | SelectById | UpdateRow

text \<open>
  The result of a stats request. \<open>avg_overall\<close> and \<open>distribution\<close> stand for the keys
  \<open>avg_overall_experience\<close> and \<open>distribution_overall_experience\<close> of the profile
  endpoint, and \<open>avg_overall\<close> and \<open>distribution_overall\<close> of the app endpoint; the
  dictionaries are association lists in the order the source builds them. A mean is a
  Python float; \<open>None\<close> is JSON \<open>null\<close>.
\<close>

record stats =
  count_total :: int
  avg_overall :: "rat option"
  distribution :: "(string \<times> int) list"
  facet_averages :: "(string \<times> rat option) list"
  top_tags :: "(string \<times> int) list"

text \<open>
  Two operations belong to the storage engine and to floating point, and are arguments:
  \<open>rounded_mean vs\<close> is \<open>round(float(AVG(...)), 3)\<close> over the non-empty list \<open>vs\<close>, and
  \<open>tag_ranking docs\<close> is the result of the \<open>JSON_TABLE\<close> statement (tag and count,
  ordered by count descending and tag ascending, at most ten) over the \<open>tags\<close> columns
  of the selected rows.
\<close>

definition mean_of :: "(int list \<Rightarrow> rat) \<Rightarrow> int list \<Rightarrow> rat option" where
  "mean_of rounded_mean vs = (if vs = [] then None else Some (rounded_mean vs))"

text \<open>\<open>AVG(NULLIF(col, 0))\<close>: the values that are neither \<open>NULL\<close> nor zero.\<close>

definition facet_values :: "('r \<Rightarrow> int option) \<Rightarrow> 'r list \<Rightarrow> int list" where
  "facet_values col rows =
     concat (map (\<lambda>r. case col r of None \<Rightarrow> [] | Some v \<Rightarrow> if v = 0 then [] else [v]) rows)"

text \<open>\<open>SUM(col = k)\<close>, read as \<open>int(agg["dk"] or 0)\<close>.\<close>

definition bucket :: "('r \<Rightarrow> int) \<Rightarrow> int \<Rightarrow> 'r list \<Rightarrow> int" where
  "bucket col k rows = int (length (filter (\<lambda>r. col r = k) rows))"

definition empty_distribution :: "(string \<times> int) list" where
  "empty_distribution = map (\<lambda>k. (py_str k, 0)) [1, 2, 3, 4, 5]"

definition distribution_of :: "('r \<Rightarrow> int) \<Rightarrow> 'r list \<Rightarrow> (string \<times> int) list" where
  "distribution_of col rows =
     [(''1'', bucket col 1 rows), (''2'', bucket col 2 rows), (''3'', bucket col 3 rows),
      (''4'', bucket col 4 rows), (''5'', bucket col 5 rows)]"

definition profile_stats_where ::
  "(string \<Rightarrow> (string list option \<Rightarrow> bool) option) \<Rightarrow> string \<Rightarrow> string option
   \<Rightarrow> datetime option \<Rightarrow> (profile_row \<Rightarrow> bool) option"
where
  "profile_stats_where cast_other reviewee tags_param since =
     (case tags_overlaps_cond cast_other tags_param of
        None \<Rightarrow> None
      | Some tag_cond \<Rightarrow>
          Some (\<lambda>r. reviewee_profile_id r = reviewee \<and> since_cond since r \<and> tag_cond (tags r)))"

definition profile_feedback_stats ::
  "(string \<Rightarrow> (string list option \<Rightarrow> bool) option) \<Rightarrow> (int list \<Rightarrow> rat)
   \<Rightarrow> (string list option list \<Rightarrow> (string \<times> int) list) \<Rightarrow> profile_row list
   \<Rightarrow> string \<Rightarrow> string option \<Rightarrow> datetime option \<Rightarrow> error + stats \<times> statement list"
where
  "profile_feedback_stats cast_other rounded_mean tag_ranking table reviewee tags_param since =
     (case profile_stats_where cast_other reviewee tags_param since of
        None \<Rightarrow> Inl ServerError
      | Some cond \<Rightarrow>
          let selected = filter cond table; tot = int (length selected) in
          if tot = 0 then
            Inr (\<lparr>count_total = 0, avg_overall = None, distribution = empty_distribution,
                  facet_averages = [(''safety_feeling'', None), (''respectfulness'', None)],
                  top_tags = []\<rparr>, [AggregateQuery])
          else
            Inr (\<lparr>count_total = tot,
                  avg_overall = mean_of rounded_mean (map overall_experience selected),
                  distribution = distribution_of overall_experience selected,
                  facet_averages =
                    [(''safety_feeling'',
                        mean_of rounded_mean (facet_values safety_feeling selected)),
                     (''respectfulness'',
                        mean_of rounded_mean (facet_values respectfulness selected))],
                  top_tags = tag_ranking (map tags selected)\<rparr>,
                 [AggregateQuery, TagRankingQuery]))"

definition app_stats_where ::
  "(string \<Rightarrow> (string list option \<Rightarrow> bool) option) \<Rightarrow> string option \<Rightarrow> datetime option
   \<Rightarrow> (app_row \<Rightarrow> bool) option"
where
  "app_stats_where cast_other tags_param since =
     (case tags_overlaps_cond cast_other tags_param of
        None \<Rightarrow> None
      | Some tag_cond \<Rightarrow> Some (\<lambda>r. since_cond since r \<and> tag_cond (tags r)))"

definition app_feedback_stats ::
  "(string \<Rightarrow> (string list option \<Rightarrow> bool) option) \<Rightarrow> (int list \<Rightarrow> rat)
   \<Rightarrow> (string list option list \<Rightarrow> (string \<times> int) list) \<Rightarrow> app_row list
   \<Rightarrow> string option \<Rightarrow> datetime option \<Rightarrow> error + stats \<times> statement list"
where
  "app_feedback_stats cast_other rounded_mean tag_ranking table tags_param since =
     (case app_stats_where cast_other tags_param since of
        None \<Rightarrow> Inl ServerError
      | Some cond \<Rightarrow>
          let selected = filter cond table; tot = int (length selected) in
          if tot = 0 then
            Inr (\<lparr>count_total = 0, avg_overall = None, distribution = empty_distribution,
                  facet_averages = [(''usability'', None), (''reliability'', None),
                                    (''performance'', None), (''support_experience'', None)],
                  top_tags = []\<rparr>, [AggregateQuery])
          else
            Inr (\<lparr>count_total = tot,
                  avg_overall = mean_of rounded_mean (map overall selected),
                  distribution = distribution_of overall selected,
                  facet_averages =
                    [(''usability'', mean_of rounded_mean (facet_values usability selected)),
                     (''reliability'', mean_of rounded_mean (facet_values reliability selected)),
                     (''performance'', mean_of rounded_mean (facet_values performance selected)),
                     (''support_experience'',
                        mean_of rounded_mean (facet_values support_experience selected))],
                  top_tags = tag_ranking (map tags selected)\<rparr>,
                 [AggregateQuery, TagRankingQuery]))"

section \<open>Partial update\<close>

text \<open>
  A validated \<open>PATCH\<close> body as \<open>model_dump(exclude_unset=True)\<close> presents it: for each
  field, \<open>None\<close> when the request did not supply it, \<open>Some None\<close> when it supplied
  \<open>null\<close>, \<open>Some (Some v)\<close> when it supplied \<open>v\<close>. The tags are those the model's
  validator left (trimmed, lower-cased, \<open>null\<close> when none remain).
\<close>

record feedback_update =
  set_headline :: "string option option"
  set_comment :: "string option option"
  set_tags :: "string list option option"

record app_update = feedback_update +
  set_author_profile_id :: "string option option"
  set_overall :: "int option option"
  set_usability :: "int option option"
  set_reliability :: "int option option"
  set_performance :: "int option option"
  set_support_experience :: "int option option"


text \<open>The list \<open>fields\<close>: one entry per supplied key, in the order of the source.\<close>

definition supplied :: "'a option \<Rightarrow> string \<Rightarrow> string list" where
  "supplied v col = (case v of None \<Rightarrow> [] | Some x \<Rightarrow> [col])"

definition app_update_fields :: "app_update \<Rightarrow> string list" where
  "app_update_fields p =
     supplied (set_author_profile_id p) ''author_profile_id'' @ supplied (set_overall p) ''overall''
     @ supplied (set_usability p) ''usability'' @ supplied (set_reliability p) ''reliability''
     @ supplied (set_performance p) ''performance''
     @ supplied (set_support_experience p) ''support_experience''
     @ supplied (set_headline p) ''headline'' @ supplied (set_comment p) ''comment''
     @ supplied (set_tags p) ''tags''"


text \<open>
  \<open>UPDATE ... SET col=%s, ..., updated_at=NOW(6) WHERE id=%s\<close>. \<open>assign\<close> writes a
  nullable column, \<open>assign_not_null\<close> a \<open>NOT NULL\<close> one. \<open>now\<close> is the reading of the
  engine's clock, \<open>NOW(6)\<close>, when the statement runs. Under the engine's strict mode a
  \<open>NULL\<close> for a \<open>NOT NULL\<close> column fails the statement (\<open>None\<close>) and changes nothing.
\<close>

definition assign :: "'a option \<Rightarrow> 'a \<Rightarrow> 'a" where
  "assign v old = (case v of None \<Rightarrow> old | Some x \<Rightarrow> x)"

definition assign_not_null :: "'a option option \<Rightarrow> 'a \<Rightarrow> 'a" where
  "assign_not_null v old = (case v of Some (Some x) \<Rightarrow> x | Some None \<Rightarrow> old | None \<Rightarrow> old)"


definition set_app_columns :: "app_update \<Rightarrow> datetime \<Rightarrow> app_row \<Rightarrow> app_row" where
  "set_app_columns p now r =
     r\<lparr>author_profile_id := assign (set_author_profile_id p) (author_profile_id r),
       overall := assign_not_null (set_overall p) (overall r),
       usability := assign (set_usability p) (usability r),
       reliability := assign (set_reliability p) (reliability r),
       performance := assign (set_performance p) (performance r),
       support_experience := assign (set_support_experience p) (support_experience r),
       headline := assign (set_headline p) (headline r),
       comment := assign (set_comment p) (comment r),
       tags := assign (set_tags p) (tags r),
       updated_at := now\<rparr>"

definition update_app_rows ::
  "app_update \<Rightarrow> datetime \<Rightarrow> string \<Rightarrow> app_row list \<Rightarrow> app_row list option"
where
  "update_app_rows p now ident table =
     (if set_overall p = Some None then None
      else Some (map (\<lambda>r. if row_id r = ident then set_app_columns p now r else r) table))"




text \<open>\<open>SELECT * FROM ... WHERE id=%s\<close>, \<open>fetch="one"\<close>.\<close>

definition select_by_id :: "string \<Rightarrow> 'a feedback_row_scheme list \<Rightarrow> 'a feedback_row_scheme option" where
  "select_by_id ident table = find (\<lambda>r. row_id r = ident) table"

text \<open>
  The \<open>If-Match\<close> check of \<open>update_app_feedback\<close>: it runs only for a header that is
  present and not empty, and fails when the header is not \<open>*\<close> and does not list the
  current fingerprint.
\<close>

definition if_match_fails :: "string option \<Rightarrow> string \<Rightarrow> bool" where
  "if_match_fails if_match current_etag =
     (case if_match of
        None \<Rightarrow> False
      | Some h \<Rightarrow>
          if h = [] then False
          else strip h \<noteq> ''*'' \<and> current_etag \<notin> set (parse_etag_header (Some h)))"

record 'o etag_response =
  etag_header :: string
  body :: 'o

text \<open>
  The endpoints return their outcome, the table afterwards, and the statements they ran.
  The response body is the row mapped through the response model, an argument as for
  the list endpoints (\<open>None\<close>: the model's validation raises).
\<close>

definition update_app_feedback ::
  "(string \<Rightarrow> string) \<Rightarrow> (app_row \<Rightarrow> 'o option) \<Rightarrow> app_row list \<Rightarrow> datetime \<Rightarrow> string
   \<Rightarrow> app_update \<Rightarrow> string option
   \<Rightarrow> (error + 'o etag_response) \<times> app_row list \<times> statement list"
where
  "update_app_feedback sha1_hex row_to_app_out table now ident payload if_match =
     (case select_by_id ident table of
        None \<Rightarrow> (Inl NotFound, table, [SelectById])
      | Some existing \<Rightarrow>
          let current_etag = make_etag sha1_hex existing in
          if if_match_fails if_match current_etag
          then (Inl PreconditionFailed, table, [SelectById])
          else if app_update_fields payload = [] then
            (case row_to_app_out existing of
               None \<Rightarrow> (Inl ServerError, table, [SelectById])
             | Some out \<Rightarrow>
                 (Inr \<lparr>etag_header = current_etag, body = out\<rparr>, table, [SelectById]))
          else
            (case update_app_rows payload now ident table of
               None \<Rightarrow> (Inl ServerError, table, [SelectById, UpdateRow])
             | Some table' \<Rightarrow>
                 (case select_by_id ident table' of
                    None \<Rightarrow> (Inl ServerError, table', [SelectById, UpdateRow, SelectById])
                  | Some row \<Rightarrow>
                      (case row_to_app_out row of
                         None \<Rightarrow> (Inl ServerError, table', [SelectById, UpdateRow, SelectById])
                       | Some out \<Rightarrow>
                           (Inr \<lparr>etag_header = make_etag sha1_hex row, body = out\<rparr>, table',
                            [SelectById, UpdateRow, SelectById])))))"


section \<open>Reference predicates\<close>

text \<open>
  The predicates the specification words the filters with, for comparison with the
  statements the endpoints run. \<open>literal_contains s sub\<close>: \<open>sub\<close> occurs in \<open>s\<close> as a
  contiguous run of characters. \<open>shares_tag doc tokens\<close>: some stored tag equals some
  token.
\<close>

fun is_prefix :: "string \<Rightarrow> string \<Rightarrow> bool" where
  "is_prefix [] s = True"
| "is_prefix (p # ps) [] = False"
| "is_prefix (p # ps) (c # cs) = (p = c \<and> is_prefix ps cs)"

fun literal_contains :: "string \<Rightarrow> string \<Rightarrow> bool" where
  "literal_contains [] sub = is_prefix sub []"
| "literal_contains (c # cs) sub = (is_prefix sub (c # cs) \<or> literal_contains cs sub)"


text \<open>
  The search strings and tokens that the statements read as they are written.
  \<open>like_literal\<close>: none of the \<open>LIKE\<close> metacharacters \<open>%\<close>, \<open>_\<close> and \<open>\\<close> occurs.
  \<open>like_plain\<close>: a token that is a \<open>LIKE\<close> pattern for itself alone; \<open>%\<close> and \<open>_\<close> do
  not occur, and \<open>\\<close> at most as the last character, where it stands for itself.
  \<open>json_plain\<close>: a token that the text handed to the cast holds as a JSON string; the
  token has no \<open>'\<close> and no \<open>"\<close>, and no character that \<open>repr\<close> writes as \<open>\xNN\<close>, an
  escape that JSON does not have. The backslash, TAB, LF and CR, which \<open>repr\<close> writes
  as \<open>\\\<close>, \<open>\t\<close>, \<open>\n\<close> and \<open>\r\<close>, and the printable characters above 160 are allowed.
\<close>

definition like_literal :: "string \<Rightarrow> bool" where
  "like_literal t = list_all (\<lambda>c. c \<noteq> CHR ''%'' \<and> c \<noteq> CHR ''_'' \<and> c \<noteq> backslash) t"

definition like_plain :: "string \<Rightarrow> bool" where
  "like_plain t =
     (list_all (\<lambda>c. c \<noteq> CHR ''%'' \<and> c \<noteq> CHR ''_'') t \<and> list_all (\<lambda>c. c \<noteq> backslash) (butlast t))"

definition json_plain_char :: "char \<Rightarrow> bool" where
  "json_plain_char c =
     (let n = (of_char c :: nat) in
        c \<noteq> squote \<and> c \<noteq> dquote
        \<and> (n = 9 \<or> n = 10 \<or> n = 13 \<or> (32 \<le> n \<and> n < 127) \<or> (161 \<le> n \<and> n \<noteq> 173)))"

definition json_plain :: "string \<Rightarrow> bool" where
  "json_plain t = list_all json_plain_char t"



section \<open>Rows to response models: the tags field\<close>

text \<open>
  The value the database driver hands to \<open>_coerce_tags\<close> for the \<open>tags\<close> column:
  \<open>None\<close>, a list (given by the \<open>str()\<close> of its elements), \<open>bytes\<close>, a \<open>str\<close>, or
  anything else (given by its \<open>str()\<close>).
\<close>

datatype py_value = PyNone | PyList "string list" | PyBytes string | PyStr string | PyOther string

text \<open>\<open>[s.strip() for s in value.split(",") if s.strip()]\<close>\<close>

definition split_tokens :: "string \<Rightarrow> string list" where
  "split_tokens v = map strip (filter (\<lambda>s. strip s \<noteq> []) (split CHR '','' v))"

text \<open>
  \<open>_coerce_tags\<close>. Two library functions are arguments: \<open>loads s\<close> is \<open>Some xs\<close> when
  \<open>json.loads(s)\<close> returns a list, \<open>xs\<close> being the \<open>str()\<close> of its elements, and \<open>None\<close>
  when it raises or returns anything else (both cases fall through to the split);
  \<open>decode b\<close> is \<open>bytes.decode()\<close>, \<open>None\<close> when it raises. The result \<open>None\<close> is an
  exception leaving the function.
\<close>

definition coerce_str :: "(string \<Rightarrow> string list option) \<Rightarrow> string \<Rightarrow> string list" where
  "coerce_str loads s = (case loads s of Some xs \<Rightarrow> xs | None \<Rightarrow> split_tokens s)"

definition coerce_tags ::
  "(string \<Rightarrow> string list option) \<Rightarrow> (string \<Rightarrow> string option) \<Rightarrow> py_value \<Rightarrow> string list option"
where
  "coerce_tags loads decode v =
     (case v of
        PyNone \<Rightarrow> Some []
      | PyList xs \<Rightarrow> Some xs
      | PyBytes b \<Rightarrow> (case decode b of None \<Rightarrow> None | Some s \<Rightarrow> Some (coerce_str loads s))
      | PyStr s \<Rightarrow> Some (coerce_str loads s)
      | PyOther s \<Rightarrow> Some [s])"

text \<open>
  The validator that \<open>ProfileFeedbackOut\<close> and \<open>AppFeedbackOut\<close> inherit from their base
  models (\<open>_normalize_and_check\<close>, \<open>_normalize_tags\<close>) and that runs whenever a response
  model is built: more than 20 entries raise; each entry is trimmed and lower-cased;
  an empty token is skipped; a token longer than 64 characters raises; and the field
  becomes \<open>cleaned or None\<close>. The outer \<open>None\<close> is the \<open>ValueError\<close>.
\<close>

fun clean_tags :: "string list \<Rightarrow> string list option" where
  "clean_tags [] = Some []"
| "clean_tags (t # ts) =
     (let token = lower (strip t) in
      if token = [] then clean_tags ts
      else if length token > 64 then None
      else map_option ((#) token) (clean_tags ts))"

definition normalize_tags :: "string list option \<Rightarrow> string list option option" where
  "normalize_tags field =
     (case field of
        None \<Rightarrow> Some None
      | Some ts \<Rightarrow>
          if length ts > 20 then None
          else (case clean_tags ts of
                  None \<Rightarrow> None
                | Some cleaned \<Rightarrow> Some (if cleaned = [] then None else Some cleaned)))"

text \<open>
  The \<open>tags\<close> field of the response model that \<open>row_to_app_out\<close> builds from a row
  whose \<open>tags\<close> value is \<open>v\<close>, and likewise \<open>row_to_profile_out\<close>, whose validator first
  raises when reviewer and reviewee coincide. \<open>None\<close>: building the model raises.
\<close>

definition app_out_tags ::
  "(string \<Rightarrow> string list option) \<Rightarrow> (string \<Rightarrow> string option) \<Rightarrow> py_value
   \<Rightarrow> string list option option"
where
  "app_out_tags loads decode v =
     (case coerce_tags loads decode v of
        None \<Rightarrow> None
      | Some xs \<Rightarrow> normalize_tags (Some xs))"

definition profile_out_tags ::
  "(string \<Rightarrow> string list option) \<Rightarrow> (string \<Rightarrow> string option) \<Rightarrow> string \<Rightarrow> string \<Rightarrow> py_value
   \<Rightarrow> string list option option"
where
  "profile_out_tags loads decode reviewer reviewee v =
     (case coerce_tags loads decode v of
        None \<Rightarrow> None
      | Some xs \<Rightarrow> if reviewer = reviewee then None else normalize_tags (Some xs))"

definition normal_tags :: "string list option \<Rightarrow> bool" where
  "normal_tags field =
     (case field of
        None \<Rightarrow> True
      | Some ts \<Rightarrow>
          ts \<noteq> [] \<and> length ts \<le> 20
          \<and> list_all (\<lambda>t. t \<noteq> [] \<and> strip t = t \<and> lower t = t \<and> length t \<le> 64) ts)"

section \<open>Sample data\<close>

text \<open>Rows and requests at which the theorems below are instantiated.\<close>

definition sample_time :: "nat \<Rightarrow> datetime" where
  "sample_time n =
     \<lparr>year = 2025, month = 10, day = 2, hour = 12, minute = 0, second = 0, microsecond = n\<rparr>"

definition sample_app_row :: "string \<Rightarrow> nat \<Rightarrow> int \<Rightarrow> string option \<Rightarrow> string list option \<Rightarrow> app_row" where
  "sample_app_row ident n rating title doc =
     \<lparr>row_id = ident, created_at = sample_time n, updated_at = sample_time n,
      headline = title, comment = None, tags = doc,
      author_profile_id = None, overall = rating, usability = None, reliability = None,
      performance = None, support_experience = None\<rparr>"

definition sample_profile_row ::
  "string \<Rightarrow> nat \<Rightarrow> int \<Rightarrow> string option \<Rightarrow> string list option \<Rightarrow> profile_row"
where
  "sample_profile_row ident n rating title doc =
     \<lparr>row_id = ident, created_at = sample_time n, updated_at = sample_time n,
      headline = title, comment = None, tags = doc,
      reviewer_profile_id = ''r1'', reviewee_profile_id = ''r2'', match_id = None,
      overall_experience = rating, would_meet_again = None, safety_feeling = None,
      respectfulness = None\<rparr>"

definition sample_app_table :: "app_row list" where
  "sample_app_table =
     [sample_app_row ''a1'' 1 5 (Some ''hello'') (Some [''punctual'']),
      sample_app_row ''a2'' 2 4 None None,
      sample_app_row ''a3'' 3 3 (Some ''Slow app'') (Some [''bug'', ''slow''])]"

definition sample_profile_table :: "profile_row list" where
  "sample_profile_table =
     [sample_profile_row ''p1'' 1 5 (Some ''hello'') (Some [''punctual'']),
      sample_profile_row ''p2'' 2 4 None None,
      sample_profile_row ''p3'' 3 3 (Some ''Great chat'') (Some [''great-convo'', ''punctual''])]"

definition sample_list_query :: "int \<Rightarrow> string option \<Rightarrow> list_query" where
  "sample_list_query row_limit cur =
     \<lparr>q_tags = None, q_min_overall = None, q_max_overall = None, q_since = None,
      q_search = None, q_sort = ''created_at'', q_order = ''desc'', q_limit = row_limit,
      q_cursor = cur\<rparr>"

definition sample_profile_query :: "int \<Rightarrow> string option \<Rightarrow> profile_list_query" where
  "sample_profile_query row_limit cur =
     list_query.extend (sample_list_query row_limit cur)
       (profile_list_query.fields None None None)"

definition sample_app_query :: "int \<Rightarrow> string option \<Rightarrow> int \<Rightarrow> app_list_query" where
  "sample_app_query row_limit cur row_offset =
     list_query.extend (sample_list_query row_limit cur) (app_list_query.fields None row_offset)"

definition no_cast :: "string \<Rightarrow> (string list option \<Rightarrow> bool) option" where
  "no_cast s = None"

definition no_int :: "string \<Rightarrow> int option" where
  "no_int s = None"

definition sample_digest :: "string \<Rightarrow> string" where
  "sample_digest s = s"

definition no_feedback_update :: feedback_update where
  "no_feedback_update = \<lparr>set_headline = None, set_comment = None, set_tags = None\<rparr>"

definition empty_app_update :: app_update where
  "empty_app_update =
     feedback_update.extend no_feedback_update
       (app_update.fields None None None None None None)"

definition headline_app_update :: app_update where
  "headline_app_update = empty_app_update\<lparr>set_headline := Some (Some ''Edited'')\<rparr>"



definition profile_tags_query :: "string \<Rightarrow> profile_list_query" where
  "profile_tags_query t =
     list_query.extend ((sample_list_query 20 None)\<lparr>q_tags := Some t\<rparr>)
       (profile_list_query.fields (Some ''r2'') None None)"

definition app_search_query :: "string \<Rightarrow> app_list_query" where
  "app_search_query s =
     list_query.extend ((sample_list_query 20 None)\<lparr>q_search := Some s\<rparr>)
       (app_list_query.fields None 0)"


definition no_loads :: "string \<Rightarrow> string list option" where
  "no_loads s = None"

definition sample_loads :: "string \<Rightarrow> string list option" where
  "sample_loads s = (if s = ''[1, 2]'' then Some [''1'', ''2''] else cast_string_array s)"

definition ascii_decode :: "string \<Rightarrow> string option" where
  "ascii_decode b = Some b"




definition nbsp_wildcard :: string where
  "nbsp_wildcard = [CHR 0xA0, CHR ''*'']"

section \<open>Properties of the cursor codec\<close>

lemma encode_cursor_example: "encode_cursor 20 = ''MjA=''"
  by (simp add: encode_cursor_def py_str_def digits10.simps digit_char_def
      urlsafe_b64encode_def b64_char_def b64_alphabet_def urlsafe_encode_translation_def)

lemma b64_index_char: "i < 64 \<Longrightarrow> b64_index (b64_char i) = Some i"
proof -
  assume "i < 64"
  then have "i \<in> set [0..<64]" by simp
  then show ?thesis
    unfolding b64_char_def b64_alphabet_def b64_index_def
    by (simp add: upt_rec) (elim disjE; simp)
qed

lemma b64_char_not_pad: "i < 64 \<Longrightarrow> b64_char i \<noteq> CHR ''=''"
proof -
  assume "i < 64"
  then have "i \<in> set [0..<64]" by simp
  then show ?thesis
    unfolding b64_char_def b64_alphabet_def
    by (simp add: upt_rec) (elim disjE; simp)
qed

lemma url_round_char: "i < 64 \<Longrightarrow> url_round (b64_char i) = b64_char i"
proof -
  assume "i < 64"
  then have "i \<in> set [0..<64]" by simp
  then show ?thesis
    unfolding b64_char_def b64_alphabet_def urlsafe_decode_translation_def
      urlsafe_encode_translation_def url_round_def
    by (simp add: upt_rec) (elim disjE; simp)
qed

lemma url_round_pad: "url_round CHR ''='' = CHR ''=''"
  by (simp add: url_round_def urlsafe_decode_translation_def urlsafe_encode_translation_def)

lemma a2b_data_step:
  assumes "i < 64"
  shows "a2b_base64 q l p (b64_char i # cs) =
     (if q = 0 then a2b_base64 1 i 0 cs
      else if q = 1 then
        map_option ((#) (char_of (l * 4 + i div 16))) (a2b_base64 2 (i mod 16) 0 cs)
      else if q = 2 then
        map_option ((#) (char_of (l * 16 + i div 4))) (a2b_base64 3 (i mod 4) 0 cs)
      else map_option ((#) (char_of (l * 64 + i))) (a2b_base64 0 0 0 cs))"
  using assms by (simp add: b64_index_char b64_char_not_pad)

lemma a2b_quad:
  assumes "i0 < 64" "i1 < 64" "i2 < 64" "i3 < 64"
  shows "a2b_base64 0 0 0 (b64_char i0 # b64_char i1 # b64_char i2 # b64_char i3 # cs) =
     map_option (\<lambda>r. char_of (i0 * 4 + i1 div 16) # char_of (i1 mod 16 * 16 + i2 div 4)
        # char_of (i2 mod 4 * 64 + i3) # r) (a2b_base64 0 0 0 cs)"
  using assms by (simp add: a2b_data_step option.map_comp comp_def del: a2b_base64.simps)

lemma a2b_pad1:
  assumes "i0 < 64" "i1 < 64" "i2 < 64"
  shows "a2b_base64 0 0 0 [b64_char i0, b64_char i1, b64_char i2, CHR ''=''] =
     Some [char_of (i0 * 4 + i1 div 16), char_of (i1 mod 16 * 16 + i2 div 4)]"
  using assms by (simp add: a2b_data_step del: a2b_base64.simps) simp

lemma a2b_pad2:
  assumes "i0 < 64" "i1 < 64"
  shows "a2b_base64 0 0 0 [b64_char i0, b64_char i1, CHR ''='', CHR ''=''] =
     Some [char_of (i0 * 4 + i1 div 16)]"
  using assms by (simp add: a2b_data_step del: a2b_base64.simps) simp

text \<open>The bytes of a group are recovered from its four sextets.\<close>

lemma sextets_byte1_single: "(x::nat) div 4 * 4 + x mod 4 * 16 div 16 = x"
  by simp

lemma sextets_byte1: "(x::nat) div 4 * 4 + (x mod 4 * 16 + y div 16) div 16 = x" if "y < 256"
  using that by (simp add: div_add1_eq)

lemma sextets_byte2:
  "(x mod 4 * 16 + y div 16) mod 16 * 16 + (y mod 16 * 4 + z div 64) div 4 = (y::nat)"
  if "y < 256" "z < 256"
proof -
  have a: "(x mod 4 * 16 + y div 16) mod 16 = y div 16" using that by simp
  have b: "(y mod 16 * 4 + z div 64) div 4 = y mod 16" using that by simp
  show ?thesis unfolding a b by simp
qed

lemma sextets_byte2_last:
  "(x mod 4 * 16 + y div 16) mod 16 * 16 + y mod 16 * 4 div 4 = (y::nat)" if "y < 256"
proof -
  have a: "(x mod 4 * 16 + y div 16) mod 16 = y div 16" using that by simp
  show ?thesis unfolding a by simp
qed

lemma sextets_byte3: "(y mod 16 * 4 + z div 64) mod 4 * 64 + z mod 64 = (z::nat)" if "z < 256"
proof -
  have a: "(y mod 16 * 4 + z div 64) mod 4 = z div 64" using that by simp
  show ?thesis unfolding a by simp
qed

lemma a2b_b2a: "a2b_base64 0 0 0 (map url_round (b2a_base64 bs)) = Some bs"
proof (induction bs rule: b2a_base64.induct)
  case 1
  show ?case by simp
next
  case (2 a)
  define x where "x = (of_char a :: nat)"
  have x: "x < 256" by (simp add: x_def)
  have b: "x div 4 < 64" "x mod 4 * 16 < 64" using x by auto
  have "a2b_base64 0 0 0 (map url_round (b2a_base64 [a])) =
      a2b_base64 0 0 0 [b64_char (x div 4), b64_char (x mod 4 * 16), CHR ''='', CHR ''='']"
    using b by (simp add: Let_def x_def url_round_char url_round_pad del: a2b_base64.simps)
  also have "\<dots> = Some [char_of x]"
    using b by (simp only: a2b_pad2 sextets_byte1_single)
  finally show ?case by (simp add: x_def)
next
  case (3 a b)
  define x where "x = (of_char a :: nat)"
  define y where "y = (of_char b :: nat)"
  have x: "x < 256" and y: "y < 256" by (simp_all add: x_def y_def)
  have b: "x div 4 < 64" "x mod 4 * 16 + y div 16 < 64" "y mod 16 * 4 < 64" using x y by auto
  have "a2b_base64 0 0 0 (map url_round (b2a_base64 [a, b])) =
      a2b_base64 0 0 0 [b64_char (x div 4), b64_char (x mod 4 * 16 + y div 16),
        b64_char (y mod 16 * 4), CHR ''='']"
    using b by (simp add: Let_def x_def y_def url_round_char url_round_pad del: a2b_base64.simps)
  also have "\<dots> = Some [char_of x, char_of y]"
    using b y by (simp only: a2b_pad1 sextets_byte1 sextets_byte2_last)
  finally show ?case by (simp add: x_def y_def)
next
  case (4 a b c rest)
  define x where "x = (of_char a :: nat)"
  define y where "y = (of_char b :: nat)"
  define z where "z = (of_char c :: nat)"
  have x: "x < 256" and y: "y < 256" and z: "z < 256" by (simp_all add: x_def y_def z_def)
  have b: "x div 4 < 64" "x mod 4 * 16 + y div 16 < 64" "y mod 16 * 4 + z div 64 < 64"
    "z mod 64 < 64"
    using x y z by auto
  have "a2b_base64 0 0 0 (map url_round (b2a_base64 (a # b # c # rest))) =
      a2b_base64 0 0 0 (b64_char (x div 4) # b64_char (x mod 4 * 16 + y div 16) #
        b64_char (y mod 16 * 4 + z div 64) # b64_char (z mod 64) #
        map url_round (b2a_base64 rest))"
    using b by (simp add: Let_def x_def y_def z_def url_round_char del: a2b_base64.simps)
  also have "\<dots> = Some (char_of x # char_of y # char_of z # rest)"
    using b y z "4.IH" by (simp only: a2b_quad sextets_byte1 sextets_byte2 sextets_byte3 option.map)
  finally show ?case by (simp add: x_def y_def z_def)
qed

lemma urlsafe_b64_roundtrip: "urlsafe_b64decode (urlsafe_b64encode bs) = Some bs"
proof -
  have "map urlsafe_decode_translation (map urlsafe_encode_translation xs) = map url_round xs"
    for xs by (simp add: url_round_def)
  then show ?thesis
    by (simp only: urlsafe_b64decode_def urlsafe_b64encode_def a2b_b2a)
qed

lemma is_digit_digit_char: "d < 10 \<Longrightarrow> is_digit (digit_char d)"
  by (simp add: is_digit_def digit_char_def)

lemma digit_val_digit_char: "d < 10 \<Longrightarrow> digit_val (digit_char d) = d"
  by (simp add: digit_val_def digit_char_def)

lemma digits10_all_digits: "list_all is_digit (digits10 n)"
proof (induction n rule: digits10.induct)
  case (1 n)
  then show ?case
    by (subst digits10.simps) (simp add: is_digit_digit_char)
qed

lemma digits10_nonempty: "digits10 n \<noteq> []"
  by (subst digits10.simps) simp

lemma digits_value_digits10: "digits_value 0 (digits10 n) = n"
proof (induction n rule: digits10.induct)
  case (1 n)
  show ?case
  proof (cases "n < 10")
    case True
    then show ?thesis
      by (subst digits10.simps) (simp add: digits_value_def digit_val_digit_char)
  next
    case False
    with 1 have "digits_value 0 (digits10 (n div 10)) = n div 10" by simp
    with False show ?thesis
      by (subst digits10.simps) (simp add: digits_value_def digit_val_digit_char)
  qed
qed

lemma scan_digits_all:
  "list_all is_digit ds \<Longrightarrow> ds \<noteq> [] \<or> \<not> pu \<Longrightarrow>
   scan_digits pu acc ds = Some (digits_value acc ds, [])"
  by (induction ds arbitrary: pu acc) (auto simp: digits_value_def)

lemma is_digit_not_space: "is_digit c \<Longrightarrow> \<not> c_isspace c"
  by (auto simp: is_digit_def c_isspace_def Let_def)

lemma is_digit_not_sign: "is_digit c \<Longrightarrow> c \<noteq> CHR ''-'' \<and> c \<noteq> CHR ''+''"
  by (auto simp: is_digit_def)

lemma py_int_ascii_digits:
  assumes "list_all is_digit ds" "ds \<noteq> []"
  shows "py_int_ascii ds = Some (int (digits_value 0 ds))"
    and "py_int_ascii (CHR ''-'' # ds) = Some (- int (digits_value 0 ds))"
proof -
  obtain d r where ds: "ds = d # r" using assms(2) by (cases ds) auto
  have d: "is_digit d" using assms(1) ds by simp
  show "py_int_ascii ds = Some (int (digits_value 0 ds))"
    using d is_digit_not_space [OF d] is_digit_not_sign [OF d]
      scan_digits_all [OF assms(1), of False 0]
    by (simp add: py_int_ascii_def ds Let_def del: scan_digits.simps)
  have m: "\<not> c_isspace CHR ''-''" by (simp add: c_isspace_def)
  show "py_int_ascii (CHR ''-'' # ds) = Some (- int (digits_value 0 ds))"
    using d m scan_digits_all [OF assms(1), of False 0]
    by (simp add: py_int_ascii_def ds Let_def del: scan_digits.simps)
qed

lemma py_int_ascii_py_str: "py_int_ascii (py_str i) = Some i"
proof (cases "i < 0")
  case True
  then show ?thesis
    using py_int_ascii_digits(2) [OF digits10_all_digits digits10_nonempty, of "nat (- i)"]
    by (simp add: py_str_def digits_value_digits10)
next
  case False
  then show ?thesis
    using py_int_ascii_digits(1) [OF digits10_all_digits digits10_nonempty, of "nat i"]
    by (simp add: py_str_def digits_value_digits10)
qed

lemma is_digit_ascii: "is_digit c \<Longrightarrow> (of_char c :: nat) < 128"
  by (simp add: is_digit_def Let_def)

lemma py_str_ascii: "list_all (\<lambda>c. (of_char c :: nat) < 128) (py_str i)"
proof -
  have "list_all (\<lambda>c. (of_char c :: nat) < 128) (digits10 n)" for n
    using digits10_all_digits [of n]
    by (induction "digits10 n") (auto simp: list_all_iff is_digit_ascii)
  then show ?thesis by (simp add: py_str_def)
qed

lemma py_str_nonempty: "py_str i \<noteq> []"
  by (simp add: py_str_def digits10_nonempty)

lemma b2a_nonempty: "bs \<noteq> [] \<Longrightarrow> b2a_base64 bs \<noteq> []"
  by (induction bs rule: b2a_base64.induct) (simp_all add: Let_def)

lemma decode_encode_cursor: "decode_cursor non_ascii (Some (encode_cursor n)) = Inr n"
proof -
  have "encode_cursor n \<noteq> []"
    by (simp add: encode_cursor_def urlsafe_b64encode_def b2a_nonempty py_str_nonempty)
  moreover have "decode_int non_ascii (py_str n) = Some n"
    by (simp add: decode_int_def py_str_ascii py_int_ascii_py_str)
  moreover have "urlsafe_b64decode (encode_cursor n) = Some (py_str n)"
    by (simp add: encode_cursor_def urlsafe_b64_roundtrip)
  ultimately show ?thesis
    by (simp add: decode_cursor_def)
qed

text \<open>
  C2 (as amended). Decoding the cursor that encodes \<open>n\<close> yields \<open>n\<close> (for every integer,
  so for every non-negative one); an absent cursor and the empty cursor, which the guard
  \<open>if not cursor\<close> treats alike, decode to offset 0; and a non-empty token whose base64
  decoding fails, or whose decoded payload does not parse as an integer, is rejected with
  the invalid-cursor client error (HTTP 400).
\<close>

theorem cursor_round_trip_and_rejection:
  "decode_cursor non_ascii (Some (encode_cursor n)) = Inr n
   \<and> decode_cursor non_ascii None = Inr 0
   \<and> decode_cursor non_ascii (Some []) = Inr 0
   \<and> (c \<noteq> [] \<and> (urlsafe_b64decode c = None
          \<or> (\<exists>bs. urlsafe_b64decode c = Some bs \<and> decode_int non_ascii bs = None))
        \<longrightarrow> decode_cursor non_ascii (Some c) = Inl BadRequest)"
proof (intro conjI impI)
  show "decode_cursor non_ascii (Some (encode_cursor n)) = Inr n"
    by (rule decode_encode_cursor)
  show "decode_cursor non_ascii None = Inr 0"
    by (simp add: decode_cursor_def)
  show "decode_cursor non_ascii (Some []) = Inr 0"
    by (simp add: decode_cursor_def)
next
  assume "c \<noteq> [] \<and> (urlsafe_b64decode c = None
    \<or> (\<exists>bs. urlsafe_b64decode c = Some bs \<and> decode_int non_ascii bs = None))"
  then show "decode_cursor non_ascii (Some c) = Inl BadRequest"
    by (auto simp: decode_cursor_def)
qed

theorem cursor_round_trip_and_rejection_witness:
  "decode_cursor (\<lambda>_. None) (Some (encode_cursor 20)) = Inr 20
   \<and> urlsafe_b64decode ''A'' = None
   \<and> decode_cursor (\<lambda>_. None) (Some ''A'') = Inl BadRequest
   \<and> urlsafe_b64decode ''eHl6'' = Some ''xyz''
   \<and> decode_int (\<lambda>_. None) ''xyz'' = None
   \<and> decode_cursor (\<lambda>_. None) (Some ''eHl6'') = Inl BadRequest"
proof -
  have a: "urlsafe_b64decode ''A'' = None"
    by code_simp
  have b: "urlsafe_b64decode ''eHl6'' = Some ''xyz''"
    by code_simp
  have c: "decode_int (\<lambda>_. None) ''xyz'' = None"
    by code_simp
  show ?thesis
    using cursor_round_trip_and_rejection [of "\<lambda>_. None" 20 "''A''"]
      cursor_round_trip_and_rejection [of "\<lambda>_. None" 20 "''eHl6''"] a b c
    by simp
qed

text \<open>
  C2 as stated fails at the empty token: its payload is empty, so the integer parse of
  the payload fails, and yet the token decodes to offset 0.
\<close>

theorem cursor_empty_token_counterexample:
  "urlsafe_b64decode [] = Some []
   \<and> decode_int (\<lambda>_. None) [] = None
   \<and> decode_cursor (\<lambda>_. None) (Some []) = Inr 0"
  by (simp add: urlsafe_b64decode_def decode_int_def py_int_ascii_def decode_cursor_def)

section \<open>Properties of the list endpoints\<close>

lemma render_all_length: "render_all f rows = Some outs \<Longrightarrow> length outs = length rows"
  by (induction rows arbitrary: outs) (auto split: option.splits)

lemma list_profile_feedback_Inr:
  assumes "list_profile_feedback na outp table q = Inr pg"
  obtains off rows where
    "decode_cursor na (q_cursor q) = Inr off"
    "select_profile_page q off table = Some rows"
    "render_all outp rows = Some (items pg)"
    "count pg = int (length rows)"
    "next_cursor pg = (if int (length rows) = q_limit q
                       then Some (encode_cursor (off + int (length rows))) else None)"
  using assms
  by (auto simp: list_profile_feedback_def Let_def render_all_length
      split: sum.splits option.splits)

lemma list_app_feedback_Inr:
  assumes "list_app_feedback na co outa table q = Inr pg"
  obtains off cond rows where
    "app_effective_offset na q = Inr off"
    "app_list_where co q = Some cond"
    "select_app_page q cond off table = Some rows"
    "render_all outa rows = Some (items pg)"
    "count pg = int (length rows)"
    "next_cursor pg = (if int (length rows) = q_limit q
                       then Some (encode_cursor (off + int (length rows))) else None)"
    "pagination pg =
       \<lparr>pagination_limit = q_limit q, pagination_offset = off,
        pagination_count = int (length rows),
        total = int (length (filter cond table)),
        has_next = (off + int (length rows) < int (length (filter cond table))),
        has_previous = (off > 0),
        next_offset = (if off + int (length rows) < int (length (filter cond table))
                       then Some (off + q_limit q) else None),
        previous_offset = (if off > 0 then Some (max (off - q_limit q) 0) else None),
        pagination_next_cursor = next_cursor pg\<rparr>"
  using assms
  by (auto simp: list_app_feedback_def Let_def render_all_length
      split: sum.splits option.splits if_splits)

text \<open>
  C7. Whenever a list endpoint returns a page, the page holds the rows the bounded
  statement returned at the effective offset, and its next cursor is present exactly
  when their number equals the limit; a cursor that is present is the encoding of the
  effective offset plus the number of rows returned, and decodes to it; with fewer rows
  than the limit there is no next cursor. The first conjunct is
  \<open>list_profile_feedback\<close>, the second \<open>list_app_feedback\<close>.
\<close>

theorem next_cursor_iff_full_page:
  "(list_profile_feedback na outp ptable pq = Inr ppage \<longrightarrow>
      (\<exists>off rows. decode_cursor na (q_cursor pq) = Inr off
         \<and> select_profile_page pq off ptable = Some rows
         \<and> count ppage = int (length rows)
         \<and> (next_cursor ppage \<noteq> None) = (count ppage = q_limit pq)
         \<and> next_cursor ppage =
             (if count ppage = q_limit pq then Some (encode_cursor (off + count ppage)) else None)
         \<and> (if count ppage = q_limit pq
             then decode_cursor na (next_cursor ppage) = Inr (off + count ppage)
             else next_cursor ppage = None)))
   \<and> (list_app_feedback na co outa atable aq = Inr apage \<longrightarrow>
      (\<exists>cond rows. app_list_where co aq = Some cond
         \<and> select_app_page aq cond (pagination_offset (pagination apage)) atable = Some rows
         \<and> count apage = int (length rows)
         \<and> (next_cursor apage \<noteq> None) = (count apage = q_limit aq)
         \<and> next_cursor apage =
             (if count apage = q_limit aq
              then Some (encode_cursor (pagination_offset (pagination apage) + count apage))
              else None)
         \<and> (if count apage = q_limit aq
             then decode_cursor na (next_cursor apage)
                  = Inr (pagination_offset (pagination apage) + count apage)
             else next_cursor apage = None)))"
proof (intro conjI impI)
  assume "list_profile_feedback na outp ptable pq = Inr ppage"
  then obtain off rows where
    f: "decode_cursor na (q_cursor pq) = Inr off"
      "select_profile_page pq off ptable = Some rows"
      "count ppage = int (length rows)"
      "next_cursor ppage = (if int (length rows) = q_limit pq
                       then Some (encode_cursor (off + int (length rows))) else None)"
    by (rule list_profile_feedback_Inr)
  show "\<exists>off rows. decode_cursor na (q_cursor pq) = Inr off
         \<and> select_profile_page pq off ptable = Some rows
         \<and> count ppage = int (length rows)
         \<and> (next_cursor ppage \<noteq> None) = (count ppage = q_limit pq)
         \<and> next_cursor ppage =
             (if count ppage = q_limit pq then Some (encode_cursor (off + count ppage)) else None)
         \<and> (if count ppage = q_limit pq
             then decode_cursor na (next_cursor ppage) = Inr (off + count ppage)
             else next_cursor ppage = None)"
    using f by (intro exI [of _ off] exI [of _ rows]) (simp add: decode_encode_cursor)
next
  assume "list_app_feedback na co outa atable aq = Inr apage"
  then obtain off cond rows where
    f: "app_list_where co aq = Some cond"
      "select_app_page aq cond off atable = Some rows"
      "count apage = int (length rows)"
      "next_cursor apage = (if int (length rows) = q_limit aq
                       then Some (encode_cursor (off + int (length rows))) else None)"
      "pagination_offset (pagination apage) = off"
    by (rule list_app_feedback_Inr) simp
  show "\<exists>cond rows. app_list_where co aq = Some cond
         \<and> select_app_page aq cond (pagination_offset (pagination apage)) atable = Some rows
         \<and> count apage = int (length rows)
         \<and> (next_cursor apage \<noteq> None) = (count apage = q_limit aq)
         \<and> next_cursor apage =
             (if count apage = q_limit aq
              then Some (encode_cursor (pagination_offset (pagination apage) + count apage))
              else None)
         \<and> (if count apage = q_limit aq
             then decode_cursor na (next_cursor apage)
                  = Inr (pagination_offset (pagination apage) + count apage)
             else next_cursor apage = None)"
    using f by (intro exI [of _ cond] exI [of _ rows]) (simp add: decode_encode_cursor)
qed

text \<open>
  At a limit of 2 over three rows the first page is full and carries the cursor for
  offset 2; the page at that cursor holds one row and carries none.
\<close>

theorem next_cursor_iff_full_page_witness:
  "(\<exists>ppage. list_profile_feedback no_int Some sample_profile_table (sample_profile_query 2 None)
        = Inr ppage
      \<and> count ppage = 2 \<and> next_cursor ppage = Some (encode_cursor 2)
      \<and> decode_cursor no_int (next_cursor ppage) = Inr 2)
   \<and> (\<exists>apage. list_app_feedback no_int no_cast Some sample_app_table
          (sample_app_query 2 (Some (encode_cursor 2)) 0) = Inr apage
      \<and> count apage = 1 \<and> next_cursor apage = None)"
proof -
  have "map_sum id (\<lambda>p. count p)
      (list_profile_feedback no_int Some sample_profile_table (sample_profile_query 2 None))
    = Inr 2"
    by code_simp
  then obtain ppage where p:
    "list_profile_feedback no_int Some sample_profile_table (sample_profile_query 2 None)
       = Inr ppage" "count ppage = 2"
    by (cases "list_profile_feedback no_int Some sample_profile_table
          (sample_profile_query 2 None)") auto
  have "map_sum id (\<lambda>p. (count p, pagination_offset (pagination p)))
      (list_app_feedback no_int no_cast Some sample_app_table
         (sample_app_query 2 (Some (encode_cursor 2)) 0))
    = Inr (1, 2)"
    by code_simp
  then obtain apage where a:
    "list_app_feedback no_int no_cast Some sample_app_table
       (sample_app_query 2 (Some (encode_cursor 2)) 0) = Inr apage" "count apage = 1"
    "pagination_offset (pagination apage) = 2"
    by (cases "list_app_feedback no_int no_cast Some sample_app_table
          (sample_app_query 2 (Some (encode_cursor 2)) 0)") auto
  have q: "q_limit (sample_profile_query 2 None) = 2"
    "q_limit (sample_app_query 2 (Some (encode_cursor 2)) 0) = 2"
    "q_cursor (sample_profile_query 2 None) = None"
    by code_simp+
  have d: "decode_cursor no_int None = Inr 0"
    by (simp add: decode_cursor_def)
  from next_cursor_iff_full_page
    [of no_int Some sample_profile_table "sample_profile_query 2 None" ppage
      no_cast Some sample_app_table "sample_app_query 2 (Some (encode_cursor 2)) 0" apage]
    p a q d
  show ?thesis by auto
qed


text \<open>
  C8. Whenever \<open>list_app_feedback\<close> returns a page: \<open>total\<close> is the number of rows of
  the table that satisfy the predicate the bounded statement selected with (the count
  statement has the same \<open>WHERE\<close> clause and no \<open>LIMIT\<close>); \<open>has_next\<close> holds exactly when
  effective offset plus returned count is below \<open>total\<close>; \<open>has_previous\<close> holds exactly
  when the effective offset is positive; and the previous offset is then
  \<open>max (offset - limit) 0\<close>, and absent otherwise. The effective offset is the decoded
  cursor when a non-empty cursor is given and the \<open>offset\<close> parameter otherwise.
\<close>

theorem app_page_total_and_neighbours:
  assumes "list_app_feedback na co outa table q = Inr pg"
  shows "\<exists>cond rows off.
      app_list_where co q = Some cond
      \<and> app_effective_offset na q = Inr off
      \<and> pagination_offset (pagination pg) = off
      \<and> select_app_page q cond off table = Some rows
      \<and> count pg = int (length rows)
      \<and> total (pagination pg) = int (length (filter cond table))
      \<and> has_next (pagination pg) = (off + count pg < total (pagination pg))
      \<and> has_previous (pagination pg) = (off > 0)
      \<and> previous_offset (pagination pg)
          = (if has_previous (pagination pg) then Some (max (off - q_limit q) 0) else None)"
proof -
  from assms obtain off cond rows where
    f: "app_effective_offset na q = Inr off"
    "app_list_where co q = Some cond"
    "select_app_page q cond off table = Some rows"
    "count pg = int (length rows)"
    "pagination pg =
       \<lparr>pagination_limit = q_limit q, pagination_offset = off,
        pagination_count = int (length rows),
        total = int (length (filter cond table)),
        has_next = (off + int (length rows) < int (length (filter cond table))),
        has_previous = (off > 0),
        next_offset = (if off + int (length rows) < int (length (filter cond table))
                       then Some (off + q_limit q) else None),
        previous_offset = (if off > 0 then Some (max (off - q_limit q) 0) else None),
        pagination_next_cursor = next_cursor pg\<rparr>"
    by (rule list_app_feedback_Inr)
  show ?thesis
    by (intro exI [of _ cond] exI [of _ rows] exI [of _ off]) (simp add: f)
qed

text \<open>
  Three rows, limit 1, offset 1: one row returned, total 3, a next and a previous page,
  previous offset 0.
\<close>

theorem app_page_total_and_neighbours_witness:
  "\<exists>pg. list_app_feedback no_int no_cast Some sample_app_table (sample_app_query 1 None 1) = Inr pg
     \<and> count pg = 1 \<and> total (pagination pg) = 3 \<and> has_next (pagination pg)
     \<and> has_previous (pagination pg) \<and> previous_offset (pagination pg) = Some 0"
proof -
  have "map_sum id (\<lambda>p. (count p, total (pagination p)))
      (list_app_feedback no_int no_cast Some sample_app_table (sample_app_query 1 None 1))
    = Inr (1, 3)"
    by code_simp
  then obtain pg where p:
    "list_app_feedback no_int no_cast Some sample_app_table (sample_app_query 1 None 1) = Inr pg"
    "count pg = 1" "total (pagination pg) = 3"
    by (cases "list_app_feedback no_int no_cast Some sample_app_table
          (sample_app_query 1 None 1)") auto
  have q: "q_limit (sample_app_query 1 None 1) = 1"
    "app_effective_offset no_int (sample_app_query 1 None 1) = Inr 1"
    by code_simp+
  from app_page_total_and_neighbours [OF p(1)] p q
  show ?thesis by auto
qed

section \<open>Properties of the stats endpoints\<close>

text \<open>
  C9. When no row satisfies the predicate of a stats request (the aggregate statement
  counts zero rows), the request succeeds with \<open>count_total = 0\<close>, the overall mean and
  every facet mean \<open>null\<close>, the five buckets \<open>"1"\<close>..\<open>"5"\<close> all zero, and no top tags;
  the trace of statements holds the aggregate statement only, so the tag-ranking
  statement is not run. The first conjunct is \<open>profile_feedback_stats\<close>, the second
  \<open>app_feedback_stats\<close>.
\<close>

theorem empty_population_stats:
  "(profile_stats_where co reviewee ptags psince = Some pcond \<and> filter pcond ptable = [] \<longrightarrow>
      profile_feedback_stats co rm tr ptable reviewee ptags psince =
        Inr (\<lparr>count_total = 0, avg_overall = None,
               distribution = [(''1'', 0), (''2'', 0), (''3'', 0), (''4'', 0), (''5'', 0)],
               facet_averages = [(''safety_feeling'', None), (''respectfulness'', None)],
               top_tags = []\<rparr>, [AggregateQuery]))
   \<and> (app_stats_where co atags asince = Some acond \<and> filter acond atable = [] \<longrightarrow>
      app_feedback_stats co rm tr atable atags asince =
        Inr (\<lparr>count_total = 0, avg_overall = None,
               distribution = [(''1'', 0), (''2'', 0), (''3'', 0), (''4'', 0), (''5'', 0)],
               facet_averages = [(''usability'', None), (''reliability'', None),
                                 (''performance'', None), (''support_experience'', None)],
               top_tags = []\<rparr>, [AggregateQuery]))"
proof -
  have d: "empty_distribution = [(''1'', 0), (''2'', 0), (''3'', 0), (''4'', 0), (''5'', 0)]"
    by code_simp
  show ?thesis
    by (simp add: profile_feedback_stats_def app_feedback_stats_def d)
qed

text \<open>
  No sampled profile row has the reviewee \<open>nobody\<close>, and no sampled app row the tag
  \<open>praise\<close>.
\<close>

theorem empty_population_stats_witness:
  "profile_feedback_stats no_cast (\<lambda>vs. 0) (\<lambda>docs. []) sample_profile_table ''nobody'' None None =
      Inr (\<lparr>count_total = 0, avg_overall = None,
             distribution = [(''1'', 0), (''2'', 0), (''3'', 0), (''4'', 0), (''5'', 0)],
             facet_averages = [(''safety_feeling'', None), (''respectfulness'', None)],
             top_tags = []\<rparr>, [AggregateQuery])
   \<and> app_feedback_stats no_cast (\<lambda>vs. 0) (\<lambda>docs. []) sample_app_table (Some ''praise'') None =
      Inr (\<lparr>count_total = 0, avg_overall = None,
             distribution = [(''1'', 0), (''2'', 0), (''3'', 0), (''4'', 0), (''5'', 0)],
             facet_averages = [(''usability'', None), (''reliability'', None),
                               (''performance'', None), (''support_experience'', None)],
             top_tags = []\<rparr>, [AggregateQuery])"
proof -
  have p: "profile_stats_where no_cast ''nobody'' None None
      = Some (\<lambda>r. reviewee_profile_id r = ''nobody'' \<and> since_cond None r \<and> True)"
    by (simp add: profile_stats_where_def tags_overlaps_cond_def)
  have pf: "filter (\<lambda>r. reviewee_profile_id r = ''nobody'' \<and> since_cond None r \<and> True)
      sample_profile_table = []"
    by code_simp
  have c: "cast_string_array (json_param (tag_list ''praise'')) = Some [''praise'']"
    by code_simp
  have t: "tag_list ''praise'' \<noteq> []"
    by code_simp
  have a: "app_stats_where no_cast (Some ''praise'') None
      = Some (\<lambda>r. since_cond None r \<and> json_overlaps (tags r) [''praise''])"
    using c t by (simp add: app_stats_where_def tags_overlaps_cond_def json_overlaps_cast_def)
  have af: "filter (\<lambda>r. since_cond None r \<and> json_overlaps (tags r) [''praise''])
      sample_app_table = []"
    by code_simp
  from empty_population_stats
    [of no_cast "''nobody''" None None _ sample_profile_table "\<lambda>vs. 0" "\<lambda>docs. []"
      "Some ''praise''" None _ sample_app_table] p pf a af
  show ?thesis by simp
qed

section \<open>Properties of partial update\<close>






lemma select_by_id_row_id: "select_by_id ident table = Some r \<Longrightarrow> row_id r = ident"
  by (induction table) (auto simp: select_by_id_def split: if_splits)



lemma update_app_feedback_precondition_failed:
  assumes "select_by_id ident table = Some existing"
    and "if_match_fails if_match (make_etag sha existing)"
  shows "update_app_feedback sha out table now ident p if_match
         = (Inl PreconditionFailed, table, [SelectById])"
  using assms by (simp add: update_app_feedback_def)

lemma update_app_feedback_check_skipped:
  assumes "\<not> if_match_fails if_match (make_etag sha existing)"
    and "select_by_id ident table = Some existing"
  shows "update_app_feedback sha out table now ident p if_match
         = update_app_feedback sha out table now ident p None"
  using assms by (simp add: update_app_feedback_def if_match_fails_def)

lemma update_app_feedback_no_header:
  "fst (update_app_feedback sha out table now ident p None) \<noteq> Inl PreconditionFailed"
  by (simp add: update_app_feedback_def if_match_fails_def Let_def
      split: option.splits)

lemma update_app_feedback_etag:
  assumes "update_app_feedback sha out table now ident p if_match = (Inr resp, table', tr)"
  shows "\<exists>row. select_by_id ident table' = Some row \<and> etag_header resp = make_etag sha row"
  using assms
  by (auto simp: update_app_feedback_def Let_def split: option.splits if_splits)

text \<open>
  C3 (as amended). For an existing app-feedback resource: a non-empty \<open>If-Match\<close>
  header that is not the wildcard and does not list the current fingerprint is rejected
  with precondition-failed, the table is unchanged and the only statement run is the
  initial \<open>SELECT\<close>; a wildcard header passes; an absent or empty header skips the check;
  in both passing cases the request proceeds exactly as one without the header and is
  never answered precondition-failed; and every successful response, the one to a body
  with no fields included, carries the fingerprint of the row as it stands afterwards.
\<close>

theorem conditional_update_app_feedback:
  assumes "select_by_id ident table = Some existing"
  shows
    "(h \<noteq> [] \<and> strip h \<noteq> ''*'' \<and> make_etag sha existing \<notin> set (parse_etag_header (Some h))
        \<longrightarrow> update_app_feedback sha out table now ident p (Some h)
            = (Inl PreconditionFailed, table, [SelectById]))
     \<and> (if_match = None \<or> if_match = Some [] \<or> (\<exists>w. if_match = Some w \<and> strip w = ''*'')
        \<longrightarrow> update_app_feedback sha out table now ident p if_match
              = update_app_feedback sha out table now ident p None
            \<and> fst (update_app_feedback sha out table now ident p if_match)
              \<noteq> Inl PreconditionFailed)
     \<and> (update_app_feedback sha out table now ident p any_match = (Inr resp, table', tr)
        \<longrightarrow> (\<exists>row. select_by_id ident table' = Some row
               \<and> etag_header resp = make_etag sha row))"
proof (intro conjI impI)
  assume "h \<noteq> [] \<and> strip h \<noteq> ''*''
    \<and> make_etag sha existing \<notin> set (parse_etag_header (Some h))"
  then have "if_match_fails (Some h) (make_etag sha existing)"
    by (simp add: if_match_fails_def)
  with assms show "update_app_feedback sha out table now ident p (Some h)
      = (Inl PreconditionFailed, table, [SelectById])"
    by (rule update_app_feedback_precondition_failed)
next
  assume a: "if_match = None \<or> if_match = Some [] \<or> (\<exists>w. if_match = Some w \<and> strip w = ''*'')"
  then have n: "\<not> if_match_fails if_match (make_etag sha existing)"
    by (auto simp: if_match_fails_def)
  from n assms show e: "update_app_feedback sha out table now ident p if_match
      = update_app_feedback sha out table now ident p None"
    by (rule update_app_feedback_check_skipped)
  show "fst (update_app_feedback sha out table now ident p if_match) \<noteq> Inl PreconditionFailed"
    unfolding e by (rule update_app_feedback_no_header)
next
  assume "update_app_feedback sha out table now ident p any_match = (Inr resp, table', tr)"
  then show "\<exists>row. select_by_id ident table' = Some row \<and> etag_header resp = make_etag sha row"
    by (rule update_app_feedback_etag)
qed

text \<open>
  On the sampled table: a stale fingerprint is rejected and nothing changes; the
  wildcard passes and the response carries the fingerprint of the updated row; a
  wildcard after a no-break space (U+00A0), which \<open>strip\<close> removes, passes as well.
\<close>

theorem conditional_update_app_feedback_witness:
  "update_app_feedback sample_digest Some sample_app_table (sample_time 9) ''a1''
       headline_app_update (Some ''stale'')
     = (Inl PreconditionFailed, sample_app_table, [SelectById])
   \<and> (\<exists>resp table' tr row.
        update_app_feedback sample_digest Some sample_app_table (sample_time 9) ''a1''
          headline_app_update (Some '' * '') = (Inr resp, table', tr)
        \<and> select_by_id ''a1'' table' = Some row
        \<and> etag_header resp = make_etag sample_digest row)
   \<and> update_app_feedback sample_digest Some sample_app_table (sample_time 9) ''a1''
          headline_app_update (Some nbsp_wildcard)
      = update_app_feedback sample_digest Some sample_app_table (sample_time 9) ''a1''
          headline_app_update None
   \<and> fst (update_app_feedback sample_digest Some sample_app_table (sample_time 9) ''a1''
          headline_app_update (Some nbsp_wildcard)) \<noteq> Inl PreconditionFailed"
proof -
  define existing where
    "existing = sample_app_row ''a1'' 1 5 (Some ''hello'') (Some [''punctual''])"
  have s: "select_by_id ''a1'' sample_app_table = Some existing"
    by (simp add: select_by_id_def sample_app_table_def sample_app_row_def existing_def)
  have h: "''stale'' \<noteq> []" "strip ''stale'' \<noteq> ''*''"
    "make_etag sample_digest existing \<notin> set (parse_etag_header (Some ''stale''))"
    unfolding existing_def by code_simp+
  have w: "strip '' * '' = ''*''" "strip nbsp_wildcard = ''*''"
    by code_simp+
  have "\<not> isl (fst (update_app_feedback sample_digest Some sample_app_table (sample_time 9)
      ''a1'' headline_app_update (Some '' * '')))"
    by code_simp
  then obtain resp table' tr where r:
    "update_app_feedback sample_digest Some sample_app_table (sample_time 9) ''a1''
       headline_app_update (Some '' * '') = (Inr resp, table', tr)"
    by (metis prod.collapse sum.collapse(2))
  note t = conditional_update_app_feedback
    [OF s, of "''stale''" sample_digest Some "sample_time 9" headline_app_update
      "Some '' * ''" "Some '' * ''" resp table' tr]
  note u = conditional_update_app_feedback
    [OF s, of "''stale''" sample_digest Some "sample_time 9" headline_app_update
      "Some nbsp_wildcard" "Some '' * ''" resp table' tr]
  from t h have a: "update_app_feedback sample_digest Some sample_app_table (sample_time 9) ''a1''
       headline_app_update (Some ''stale'')
     = (Inl PreconditionFailed, sample_app_table, [SelectById])"
    by blast
  from t r obtain row where b: "select_by_id ''a1'' table' = Some row"
    "etag_header resp = make_etag sample_digest row"
    by blast
  from u w(2) have c: "update_app_feedback sample_digest Some sample_app_table (sample_time 9)
        ''a1'' headline_app_update (Some nbsp_wildcard)
      = update_app_feedback sample_digest Some sample_app_table (sample_time 9) ''a1''
          headline_app_update None"
    "fst (update_app_feedback sample_digest Some sample_app_table (sample_time 9) ''a1''
          headline_app_update (Some nbsp_wildcard)) \<noteq> Inl PreconditionFailed"
    by blast+
  from a b r c show ?thesis by blast
qed

text \<open>
  C3 as stated fails at the empty header: its list of fingerprints is empty, so it is
  not the wildcard and does not hold the current fingerprint, and yet the request is
  not rejected and the row is rewritten.
\<close>

theorem conditional_update_empty_header_counterexample:
  "strip [] \<noteq> ''*''
   \<and> make_etag sample_digest (sample_app_row ''a1'' 1 5 (Some ''hello'') (Some [''punctual'']))
       \<notin> set (parse_etag_header (Some []))
   \<and> select_by_id ''a1'' sample_app_table
       = Some (sample_app_row ''a1'' 1 5 (Some ''hello'') (Some [''punctual'']))
   \<and> fst (update_app_feedback sample_digest Some sample_app_table (sample_time 9) ''a1''
          headline_app_update (Some [])) \<noteq> Inl PreconditionFailed
   \<and> fst (snd (update_app_feedback sample_digest Some sample_app_table (sample_time 9) ''a1''
          headline_app_update (Some []))) \<noteq> sample_app_table"
  by code_simp

subsection \<open>The rendering of timestamps is injective\<close>









lemma dt_key_less_neq: "dt_key a < dt_key b \<Longrightarrow> b \<noteq> a"
  by auto






section \<open>Properties of the filters\<close>

subsection \<open>\<open>LIKE\<close> patterns\<close>

lemma like_match_percent_only: "like_match ''%'' s"
  by (induction s) simp_all

lemma like_match_percent:
  "like_match (CHR ''%'' # q) s = (\<exists>a u. s = a @ u \<and> like_match q u)"
proof (induction s)
  case Nil
  show ?case by (cases q) auto
next
  case (Cons c cs)
  show ?case
  proof
    assume "like_match (CHR ''%'' # q) (c # cs)"
    then consider "like_match q (c # cs)" | "like_match (CHR ''%'' # q) cs" by auto
    then show "\<exists>a u. c # cs = a @ u \<and> like_match q u"
    proof cases
      case 1
      then show ?thesis by (intro exI [of _ "[]"] exI [of _ "c # cs"]) simp
    next
      case 2
      with Cons obtain a u where "cs = a @ u" "like_match q u" by auto
      then show ?thesis by (intro exI [of _ "c # a"] exI [of _ u]) simp
    qed
  next
    assume "\<exists>a u. c # cs = a @ u \<and> like_match q u"
    then obtain a u where au: "c # cs = a @ u" "like_match q u" by auto
    show "like_match (CHR ''%'' # q) (c # cs)"
    proof (cases a)
      case Nil
      with au have "like_match q (c # cs)" by simp
      then show ?thesis by simp
    next
      case (Cons x xs)
      with au have "cs = xs @ u" by simp
      with au(2) Cons.IH show ?thesis by auto
    qed
  qed
qed

lemma like_match_literal_prefix:
  "like_literal p \<Longrightarrow> like_match (p @ q) s = (\<exists>u. s = p @ u \<and> like_match q u)"
proof (induction p arbitrary: s)
  case Nil
  show ?case by simp
next
  case (Cons x xs)
  then have x: "x \<noteq> CHR ''%''" "x \<noteq> CHR ''_''" "x \<noteq> backslash" and xs: "like_literal xs"
    by (simp_all add: like_literal_def)
  show ?case
  proof (cases s)
    case Nil
    then show ?thesis using x by simp
  next
    case (Cons c cs)
    then show ?thesis using x Cons.IH [OF xs, of cs] by auto
  qed
qed


lemma is_prefix_iff: "is_prefix p s = (\<exists>u. s = p @ u)"
  by (induction p s rule: is_prefix.induct) auto

lemma literal_contains_iff: "literal_contains s sub = (\<exists>a u. s = a @ sub @ u)"
proof (induction s)
  case Nil
  show ?case by (auto simp: is_prefix_iff)
next
  case (Cons c cs)
  show ?case
  proof
    assume "literal_contains (c # cs) sub"
    then consider "is_prefix sub (c # cs)" | "literal_contains cs sub" by auto
    then show "\<exists>a u. c # cs = a @ sub @ u"
    proof cases
      case 1
      then obtain u where "c # cs = sub @ u" by (auto simp: is_prefix_iff)
      then show ?thesis by (intro exI [of _ "[]"] exI [of _ u]) simp
    next
      case 2
      with Cons obtain a u where "cs = a @ sub @ u" by auto
      then show ?thesis by (intro exI [of _ "c # a"] exI [of _ u]) simp
    qed
  next
    assume "\<exists>a u. c # cs = a @ sub @ u"
    then obtain a u where au: "c # cs = a @ sub @ u" by auto
    show "literal_contains (c # cs) sub"
    proof (cases a)
      case Nil
      with au have "is_prefix sub (c # cs)" by (simp add: is_prefix_iff)
      then show ?thesis by simp
    next
      case (Cons x xs)
      with au have "cs = xs @ sub @ u" by simp
      with Cons.IH show ?thesis by auto
    qed
  qed
qed

text \<open>
  For a search string without \<open>LIKE\<close> metacharacters the pattern \<open>%search%\<close> is the
  literal test.
\<close>

lemma like_match_search_pattern_plain:
  assumes "like_literal sub"
  shows "like_match (CHR ''%'' # sub @ ''%'') s = literal_contains s sub"
proof -
  have "like_match (CHR ''%'' # sub @ ''%'') s
        = (\<exists>a u. s = a @ u \<and> (\<exists>v. u = sub @ v \<and> like_match ''%'' v))"
    by (simp only: like_match_percent like_match_literal_prefix [OF assms])
  also have "\<dots> = (\<exists>a v. s = a @ sub @ v)"
    by (auto simp: like_match_percent_only simp del: like_match.simps)
  finally show ?thesis by (simp add: literal_contains_iff)
qed

subsection \<open>Tokens of a tags parameter\<close>

lemma lower_char_upper:
  "py_isupper c \<Longrightarrow> lower_char c = char_of (of_char c + 32 :: nat)"
  unfolding lower_char_def by simp

lemma lower_char_other: "\<not> py_isupper c \<Longrightarrow> lower_char c = c"
  unfolding lower_char_def by simp

lemma of_char_lower_char_upper:
  assumes "py_isupper c"
  shows "(of_char (lower_char c) :: nat) = of_char c + 32"
proof -
  from assms have "(of_char c :: nat) + 32 < 256"
    unfolding py_isupper_def Let_def by auto
  then show ?thesis using assms by (simp add: lower_char_upper)
qed

lemma py_isspace_lower_char: "py_isspace (lower_char c) = py_isspace c"
proof (cases "py_isupper c")
  case True
  then have "(of_char (lower_char c) :: nat) = of_char c + 32"
    by (rule of_char_lower_char_upper)
  with True show ?thesis unfolding py_isspace_def py_isupper_def Let_def by auto
next
  case False
  then have "lower_char c = c" by (rule lower_char_other)
  then show ?thesis by simp
qed

lemma dropWhile_space_lower: "dropWhile py_isspace (lower s) = lower (dropWhile py_isspace s)"
  by (simp add: lower_def dropWhile_map comp_def py_isspace_lower_char)

lemma strip_lower: "strip (lower s) = lower (strip s)"
proof -
  have "rev (lower s) = lower (rev s)" for s by (simp add: lower_def rev_map)
  then show ?thesis by (simp add: strip_def dropWhile_space_lower)
qed

lemma dropWhile_idem: "dropWhile P (dropWhile P xs) = dropWhile P xs"
  by (induction xs) auto

lemma dropWhile_rev_dropWhile:
  "dropWhile P (rev (dropWhile P (rev (dropWhile P xs)))) = rev (dropWhile P (rev (dropWhile P xs)))"
proof (cases "dropWhile P (rev (dropWhile P xs)) = []")
  case True
  show ?thesis unfolding True by simp
next
  case False
  define u where "u = dropWhile P xs"
  define rest where "rest = dropWhile P (rev u)"
  from False have ne: "rest \<noteq> []" by (simp add: rest_def u_def)
  have "rev u = takeWhile P (rev u) @ rest" by (simp add: rest_def)
  then have u: "u = rev rest @ rev (takeWhile P (rev u))"
    by (metis rev_append rev_rev_ident)
  from ne have un: "u \<noteq> []" using u by auto
  have "hd u = hd (rev rest)" using u ne by (metis hd_append2 rev_is_Nil_conv)
  moreover have "\<not> P (hd u)" using un unfolding u_def by (rule hd_dropWhile)
  ultimately have "\<not> P (hd (rev rest))" by simp
  with ne have "dropWhile P (rev rest) = rev rest"
    by (cases "rev rest") auto
  then show ?thesis by (simp add: rest_def u_def)
qed

lemma strip_strip: "strip (strip s) = strip s"
  by (simp add: strip_def dropWhile_rev_dropWhile)

lemma lower_char_idem: "lower_char (lower_char c) = lower_char c"
proof (cases "py_isupper c")
  case True
  then have "(of_char (lower_char c) :: nat) = of_char c + 32"
    by (rule of_char_lower_char_upper)
  with True have "\<not> py_isupper (lower_char c)"
    unfolding py_isupper_def Let_def by auto
  then show ?thesis by (rule lower_char_other)
next
  case False
  then have "lower_char c = c" by (rule lower_char_other)
  then show ?thesis by simp
qed

lemma lower_lower: "lower (lower s) = lower s"
  by (simp add: lower_def lower_char_idem)



subsection \<open>The cast of plain tokens\<close>


















subsection \<open>The tag conditions\<close>




text \<open>
  Outside the plain tokens the two statements do not read a token as it is written:
  \<open>%\<close> and \<open>_\<close> match other strings, a backslash before another character drops out
  of the pattern, and a token with a quote or with a character that \<open>repr\<close> writes as
  \<open>\xNN\<close> leaves a text that is not a JSON array of strings.
\<close>

lemma tokens_not_plain:
  "\<not> like_plain ''%'' \<and> like_match ''%'' ''x''
   \<and> \<not> like_plain ''a_'' \<and> like_match ''a_'' ''ab''
   \<and> \<not> like_plain [CHR ''a'', backslash, CHR ''b''] \<and> like_match [CHR ''a'', backslash, CHR ''b''] ''ab''
   \<and> \<not> like_match [CHR ''a'', backslash, CHR ''b''] [CHR ''a'', backslash, CHR ''b'']
   \<and> \<not> json_plain [CHR ''a'', squote, CHR ''b'']
   \<and> cast_string_array (json_param [[CHR ''a'', squote, CHR ''b'']]) = None
   \<and> \<not> json_plain [CHR ''a'', dquote, CHR ''b'']
   \<and> cast_string_array (json_param [[CHR ''a'', dquote, CHR ''b'']]) = None
   \<and> \<not> json_plain [CHR ''a'', CHR 0x01, CHR ''b'']
   \<and> cast_string_array (json_param [[CHR ''a'', CHR 0x01, CHR ''b'']]) = None
   \<and> \<not> json_plain [CHR ''a'', CHR 0xA0, CHR ''b'']
   \<and> cast_string_array (json_param [[CHR ''a'', CHR 0xA0, CHR ''b'']]) = None"
  by code_simp

text \<open>
  Character by character the two sets are exact: a one-character token is a \<open>LIKE\<close>
  pattern for itself alone among the one-character strings exactly when it is
  \<open>like_plain\<close>, and the cast reads it back from the text handed to it exactly when it
  is \<open>json_plain\<close>.
\<close>

lemma like_plain_char_exact:
  "\<forall>c. like_plain [c] = (\<forall>d. like_match [c] [d] = (d = c))"
  by code_simp

lemma json_plain_char_exact:
  "\<forall>c. json_plain_char c = (cast_string_array (json_param [[c]]) = Some [[c]])"
  by code_simp




text \<open>
  C1 (the code departs from the claim). With \<open>tags=%\<close>, and the reviewee all sampled
  rows share, the predicate of \<open>list_profile_feedback\<close> selects the two rows that carry
  tags: \<open>JSON_SEARCH\<close> reads the token as a \<open>LIKE\<close> pattern that matches every string. The
  predicate of \<open>profile_feedback_stats\<close> selects none: \<open>JSON_OVERLAPS\<close> compares the
  token \<open>%\<close> with the stored tags for equality. The filtered sets differ.
\<close>

theorem list_and_stats_tag_predicates_differ:
  "tag_list ''%'' = [''%'']
   \<and> map row_id (filter (profile_list_where (profile_tags_query ''%'')) sample_profile_table)
       = [''p1'', ''p3'']
   \<and> cast_string_array (json_param (tag_list ''%'')) = Some [''%'']
   \<and> map_option (\<lambda>cond. map row_id (filter cond sample_profile_table))
         (profile_stats_where no_cast ''r2'' (Some ''%'') None) = Some []
   \<and> json_search_not_null (Some [''punctual'']) ''%''
   \<and> \<not> json_overlaps (Some [''punctual'']) [''%'']"
  by code_simp

subsection \<open>The free-text condition\<close>

lemma search_cond_plain:
  assumes "s \<noteq> []" "like_literal (lower s)"
  shows "search_cond (Some s) r
         = (literal_contains (lower (coalesce (headline r))) (lower s)
            \<or> literal_contains (lower (coalesce (comment r))) (lower s))"
  using assms by (simp add: search_cond_def search_pattern_def like_match_search_pattern_plain)

text \<open>
  C6 (the code departs from the claim). The search string is placed in a \<open>LIKE\<close>
  pattern unescaped. A row with headline \<open>hello\<close> and no comment passes the search
  condition for \<open>%\<close> and for \<open>h_llo\<close>, and \<open>list_app_feedback\<close> returns it, although
  neither string occurs literally in its lower-cased headline or comment.
\<close>

theorem search_metacharacters_not_literal:
  "search_cond (Some ''%'') (sample_app_row ''a1'' 1 5 (Some ''hello'') None)
   \<and> \<not> literal_contains (lower (coalesce (Some ''hello''))) (lower ''%'')
   \<and> \<not> literal_contains (lower (coalesce None)) (lower ''%'')
   \<and> search_cond (Some ''h_llo'') (sample_app_row ''a1'' 1 5 (Some ''hello'') None)
   \<and> \<not> literal_contains (lower (coalesce (Some ''hello''))) (lower ''h_llo'')
   \<and> \<not> literal_contains (lower (coalesce None)) (lower ''h_llo'')
   \<and> map_sum id (\<lambda>p. map row_id (items p))
        (list_app_feedback no_int no_cast Some sample_app_table (app_search_query ''h_llo''))
      = Inr [''a1'']"
  by code_simp

section \<open>Properties of the response models' tags\<close>

lemma clean_tags_length: "clean_tags ts = Some cleaned \<Longrightarrow> length cleaned \<le> length ts"
proof (induction ts arbitrary: cleaned)
  case Nil
  then show ?case by simp
next
  case (Cons t ts)
  show ?case
  proof (cases "lower (strip t) = []")
    case True
    with Cons.prems have "clean_tags ts = Some cleaned" by simp
    with Cons.IH have "length cleaned \<le> length ts" by simp
    then show ?thesis by simp
  next
    case False
    with Cons.prems obtain rest where r: "clean_tags ts = Some rest"
      "cleaned = lower (strip t) # rest"
      by (auto simp: Let_def split: if_splits)
    with Cons.IH have "length rest \<le> length ts" by simp
    with r show ?thesis by simp
  qed
qed

lemma clean_tags_normal:
  "clean_tags ts = Some cleaned \<Longrightarrow>
   list_all (\<lambda>t. t \<noteq> [] \<and> strip t = t \<and> lower t = t \<and> length t \<le> 64) cleaned"
proof (induction ts arbitrary: cleaned)
  case Nil
  then show ?case by simp
next
  case (Cons t ts)
  show ?case
  proof (cases "lower (strip t) = []")
    case True
    with Cons show ?thesis by simp
  next
    case False
    with Cons.prems obtain rest where r: "clean_tags ts = Some rest"
      "cleaned = lower (strip t) # rest" "length (lower (strip t)) \<le> 64"
      by (auto simp: Let_def split: if_splits)
    with Cons.IH [OF r(1)] False show ?thesis
      by (simp add: strip_lower strip_strip lower_lower)
  qed
qed

lemma normalize_tags_normal: "normalize_tags field = Some out \<Longrightarrow> normal_tags out"
proof (cases field)
  case None
  assume "normalize_tags field = Some out"
  with None show ?thesis by (simp add: normalize_tags_def normal_tags_def)
next
  case (Some ts)
  assume a: "normalize_tags field = Some out"
  with Some obtain cleaned where c: "length ts \<le> 20" "clean_tags ts = Some cleaned"
    "out = (if cleaned = [] then None else Some cleaned)"
    by (auto simp: normalize_tags_def split: if_splits option.splits)
  from clean_tags_length [OF c(2)] c(1) have "length cleaned \<le> 20" by simp
  with clean_tags_normal [OF c(2)] c(3) show ?thesis
    by (simp add: normal_tags_def)
qed

text \<open>
  C10 (as amended). \<open>_coerce_tags\<close> maps a stored \<open>NULL\<close> to the empty list, a JSON
  array to its elements as strings, and any other string to its trimmed non-empty
  comma-separated tokens. The response model's validator then trims and lower-cases the
  entries, drops the empty ones and replaces an empty list by \<open>null\<close>. So whenever a
  response model is built, its \<open>tags\<close> field is \<open>null\<close> or a non-empty list of at most
  20 trimmed, lower-cased, non-empty strings of at most 64 characters; a stored \<open>NULL\<close>
  is surfaced as \<open>null\<close>.
\<close>

theorem response_tags_null_or_normal:
  "coerce_tags loads decode PyNone = Some []
   \<and> app_out_tags loads decode PyNone = Some None
   \<and> (reviewer \<noteq> reviewee \<longrightarrow> profile_out_tags loads decode reviewer reviewee PyNone = Some None)
   \<and> (loads s = Some xs \<longrightarrow>
        coerce_tags loads decode (PyStr s) = Some xs
        \<and> app_out_tags loads decode (PyStr s) = normalize_tags (Some xs))
   \<and> (loads s = None \<longrightarrow>
        coerce_tags loads decode (PyStr s) = Some (split_tokens s)
        \<and> list_all (\<lambda>t. t \<noteq> [] \<and> strip t = t) (split_tokens s)
        \<and> app_out_tags loads decode (PyStr s) = normalize_tags (Some (split_tokens s)))
   \<and> (app_out_tags loads decode v = Some out \<longrightarrow> normal_tags out)
   \<and> (profile_out_tags loads decode reviewer reviewee v = Some pout \<longrightarrow> normal_tags pout)"
proof (intro conjI impI)
  show "coerce_tags loads decode PyNone = Some []"
    by (simp add: coerce_tags_def)
  show "app_out_tags loads decode PyNone = Some None"
    by (simp add: app_out_tags_def coerce_tags_def normalize_tags_def)
  show "profile_out_tags loads decode reviewer reviewee PyNone = Some None"
    if "reviewer \<noteq> reviewee"
    using that by (simp add: profile_out_tags_def coerce_tags_def normalize_tags_def)
  show "coerce_tags loads decode (PyStr s) = Some xs" if "loads s = Some xs"
    using that by (simp add: coerce_tags_def coerce_str_def)
  show "app_out_tags loads decode (PyStr s) = normalize_tags (Some xs)" if "loads s = Some xs"
    using that by (simp add: app_out_tags_def coerce_tags_def coerce_str_def)
  show "coerce_tags loads decode (PyStr s) = Some (split_tokens s)" if "loads s = None"
    using that by (simp add: coerce_tags_def coerce_str_def)
  show "list_all (\<lambda>t. t \<noteq> [] \<and> strip t = t) (split_tokens s)"
    by (simp add: split_tokens_def list_all_iff strip_strip)
  show "app_out_tags loads decode (PyStr s) = normalize_tags (Some (split_tokens s))"
    if "loads s = None"
    using that by (simp add: app_out_tags_def coerce_tags_def coerce_str_def)
  show "normal_tags out" if "app_out_tags loads decode v = Some out"
    using that normalize_tags_normal
    by (auto simp: app_out_tags_def split: option.splits)
  show "normal_tags pout" if "profile_out_tags loads decode reviewer reviewee v = Some pout"
    using that normalize_tags_normal
    by (auto simp: profile_out_tags_def split: option.splits if_splits)
qed

text \<open>
  A JSON array, a comma-separated string and a stored \<open>NULL\<close>, through
  \<open>row_to_app_out\<close> and \<open>row_to_profile_out\<close>.
\<close>

theorem response_tags_null_or_normal_witness:
  "app_out_tags sample_loads ascii_decode (PyStr ''[1, 2]'') = Some (Some [''1'', ''2''])
   \<and> app_out_tags sample_loads ascii_decode (PyStr '' Bug, ,slow '') = Some (Some [''bug'', ''slow''])
   \<and> normal_tags (Some [''bug'', ''slow''])
   \<and> profile_out_tags sample_loads ascii_decode ''r1'' ''r2'' PyNone = Some None
   \<and> profile_out_tags sample_loads ascii_decode ''r1'' ''r2'' (PyStr '', '') = Some None
   \<and> normal_tags None"
proof -
  have l: "sample_loads ''[1, 2]'' = Some [''1'', ''2'']" "sample_loads '' Bug, ,slow '' = None"
    "sample_loads '', '' = None"
    by code_simp+
  have n: "normalize_tags (Some [''1'', ''2'']) = Some (Some [''1'', ''2''])"
    "normalize_tags (Some (split_tokens '' Bug, ,slow '')) = Some (Some [''bug'', ''slow''])"
    by code_simp+
  have r: "''r1'' \<noteq> ''r2''" by simp
  have a: "app_out_tags sample_loads ascii_decode (PyStr '' Bug, ,slow '')
      = Some (Some [''bug'', ''slow''])"
    using response_tags_null_or_normal
      [of sample_loads ascii_decode "''r1''" "''r2''" "'' Bug, ,slow ''" "[]" PyNone None None] l n
    by simp
  have p: "profile_out_tags sample_loads ascii_decode ''r1'' ''r2'' (PyStr '', '') = Some None"
    by code_simp
  from response_tags_null_or_normal
    [of sample_loads ascii_decode "''r1''" "''r2''" "''[1, 2]''" "[''1'', ''2'']"
      "PyStr '', ''" None None] p
  have q: "normal_tags None" by simp
  from response_tags_null_or_normal
    [of sample_loads ascii_decode "''r1''" "''r2''" "''[1, 2]''" "[''1'', ''2'']"
      "PyStr '' Bug, ,slow ''" "Some [''bug'', ''slow'']" None] l n r a p q
  show ?thesis by simp
qed

text \<open>
  C10 as stated fails for a stored \<open>NULL\<close>: \<open>_coerce_tags\<close> returns the empty list, and
  the validator of the response model turns it into \<open>null\<close>.
\<close>

theorem response_tags_null_counterexample:
  "coerce_tags no_loads ascii_decode PyNone = Some []
   \<and> app_out_tags no_loads ascii_decode PyNone = Some None
   \<and> profile_out_tags no_loads ascii_decode ''r1'' ''r2'' PyNone = Some None"
  by code_simp

end
